theory Spec2Isabelle
  imports Main
begin

section \<open>Go values: strings, errors, panics\<close>

text \<open>
  A Go \<open>string\<close> is a sequence of bytes, modelled as \<^typ>\<open>string\<close> (a list of 8-bit
  characters); \<open>len(s)\<close> is \<^const>\<open>length\<close>. A Go \<open>error\<close> value is modelled by
  its message (\<open>err.Error()\<close>), and \<open>nil\<close> by \<^const>\<open>None\<close>. A function either
  returns or panics; a panic unwinds the whole call, so it is an outcome of its own.
\<close>

type_synonym error = string

datatype panic = IndexOutOfRange | InterfaceConversion | NilDereference

datatype 'a go = Returns 'a | Panic panic

subsection \<open>The functions of package \<open>strings\<close> and \<open>regexp\<close> that the authorizer calls\<close>

fun HasPrefix :: "string \<Rightarrow> string \<Rightarrow> bool" where
  "HasPrefix s [] = True"
| "HasPrefix [] (p # ps) = False"
| "HasPrefix (c # cs) (p # ps) = (c = p \<and> HasPrefix cs ps)"

text \<open>\<open>strings.Contains(s, substr)\<close>: \<open>substr\<close> occurs in \<open>s\<close> as a contiguous run of bytes.\<close>

fun Contains :: "string \<Rightarrow> string \<Rightarrow> bool" where
  "Contains [] substr = (substr = [])"
| "Contains (c # cs) substr = (HasPrefix (c # cs) substr \<or> Contains cs substr)"

text \<open>
  \<open>regexp.MatchString("Bearer (.*)", s)\<close>. The pattern is not anchored and \<open>(.*)\<close> matches
  the empty string, so the match succeeds exactly when the seven bytes \<open>Bearer\<close> plus one
  space occur somewhere in \<open>s\<close>. The pattern is a constant that compiles, so the error
  result the source discards is always \<open>nil\<close>.
\<close>

definition MatchString_Bearer :: "string \<Rightarrow> bool" where
  "MatchString_Bearer s = Contains s ''Bearer ''"

text \<open>
  White space as \<open>unicode.IsSpace\<close> defines it, in UTF-8: the six ASCII characters
  tab, line feed, vertical tab, form feed, carriage return and space, then U+0085, U+00A0,
  U+1680, U+2000 to U+200A, U+2028, U+2029, U+202F, U+205F and U+3000. No byte of these
  encodings' first position is a UTF-8 continuation byte, so scanning byte by byte finds
  the same white space as Go's rune-by-rune scan, also in a string that is not valid UTF-8.
\<close>

definition spaceRunes :: "string list" where
  "spaceRunes =
    [[CHR 0x09], [CHR 0x0A], [CHR 0x0B], [CHR 0x0C], [CHR 0x0D], [CHR 0x20],
     [CHR 0xC2, CHR 0x85], [CHR 0xC2, CHR 0xA0],
     [CHR 0xE1, CHR 0x9A, CHR 0x80],
     [CHR 0xE2, CHR 0x80, CHR 0x80], [CHR 0xE2, CHR 0x80, CHR 0x81],
     [CHR 0xE2, CHR 0x80, CHR 0x82], [CHR 0xE2, CHR 0x80, CHR 0x83],
     [CHR 0xE2, CHR 0x80, CHR 0x84], [CHR 0xE2, CHR 0x80, CHR 0x85],
     [CHR 0xE2, CHR 0x80, CHR 0x86], [CHR 0xE2, CHR 0x80, CHR 0x87],
     [CHR 0xE2, CHR 0x80, CHR 0x88], [CHR 0xE2, CHR 0x80, CHR 0x89],
     [CHR 0xE2, CHR 0x80, CHR 0x8A],
     [CHR 0xE2, CHR 0x80, CHR 0xA8], [CHR 0xE2, CHR 0x80, CHR 0xA9],
     [CHR 0xE2, CHR 0x80, CHR 0xAF], [CHR 0xE2, CHR 0x81, CHR 0x9F],
     [CHR 0xE3, CHR 0x80, CHR 0x80]]"

text \<open>The width in bytes of the white-space character \<open>s\<close> starts with, 0 if there is none.\<close>

definition spaceWidth :: "string \<Rightarrow> nat" where
  "spaceWidth s = (case find (HasPrefix s) spaceRunes of None \<Rightarrow> 0 | Some r \<Rightarrow> length r)"

text \<open>
  \<open>strings.Fields(s)\<close>: the maximal runs of bytes between white space, in order; no field
  is empty. \<open>fieldsFrom skip cur s\<close> scans \<open>s\<close> with the field read so far in \<open>cur\<close>
  and \<open>skip\<close> bytes of a white-space character still to pass.
\<close>

fun fieldsFrom :: "nat \<Rightarrow> string \<Rightarrow> string \<Rightarrow> string list" where
  "fieldsFrom skip cur [] = (if cur = [] then [] else [cur])"
| "fieldsFrom (Suc k) cur (c # cs) = fieldsFrom k cur cs"
| "fieldsFrom 0 cur (c # cs) =
     (if spaceWidth (c # cs) = 0 then fieldsFrom 0 (cur @ [c]) cs
      else (if cur = [] then [] else [cur]) @ fieldsFrom (spaceWidth (c # cs) - 1) [] cs)"

definition Fields :: "string \<Rightarrow> string list" where
  "Fields s = fieldsFrom 0 [] s"

text \<open>
  \<open>strings.Split(s, " ")\<close>: the pieces of \<open>s\<close> between every two occurrences of
  the separator byte, empty pieces kept; the empty string gives one empty piece.
\<close>

fun Split :: "string \<Rightarrow> char \<Rightarrow> string list" where
  "Split [] sep = [[]]"
| "Split (c # cs) sep =
     (if c = sep then [] # Split cs sep
      else (case Split cs sep of [] \<Rightarrow> [[c]] | f # fs \<Rightarrow> (c # f) # fs))"

text \<open>\<open>strings.Join(elems, sep)\<close>.\<close>

fun Join :: "string list \<Rightarrow> string \<Rightarrow> string" where
  "Join [] sep = []"
| "Join [e] sep = e"
| "Join (e # es) sep = e @ sep @ Join es sep"

section \<open>The request and the bearer-token extractor\<close>

record APIGatewayCustomAuthorizerRequest =
  Type :: string
  AuthorizationToken :: string
  MethodArn :: string

text \<open>
  \<open>getToken\<close> returns the pair \<open>(token, err)\<close> of the source. \<open>tokenParts[1]\<close> is an
  index expression on a slice: with fewer than two fields it panics.
\<close>

definition getToken :: "APIGatewayCustomAuthorizerRequest \<Rightarrow> (string \<times> error option) go" where
  "getToken event =
     (if Type event \<noteq> ''TOKEN''
      then Returns ('''', Some (''expected 'event.Type' parameter to have value 'TOKEN'' @ [CHR 0x27]))
      else let tokenString = AuthorizationToken event in
        if length tokenString \<le> 0
        then Returns ('''', Some ''expected 'event.AuthorizationToken' parameter to not be empty'')
        else if \<not> MatchString_Bearer tokenString
        then Returns ('''', Some (''invalid authorization token - The provided 'Authorization' header does not match 'Bearer .*'' @ [CHR 0x27]))
        else let tokenParts = Fields tokenString in
          if 1 < length tokenParts then Returns (tokenParts ! 1, None)
          else Panic IndexOutOfRange)"

section \<open>Tokens and claims\<close>

text \<open>
  A decoded JSON value, as \<open>encoding/json\<close> stores it in an \<open>interface{}\<close>. A claims
  map is \<open>map[string]interface{}\<close>: a key that is absent and a key bound to JSON
  \<open>null\<close> both read as the \<open>nil\<close> interface.
\<close>

datatype json = JNull | JBool bool | JNumber int | JString string
  | JArray "json list" | JObject "(string \<times> json) list"

type_synonym MapClaims = "string \<rightharpoonup> json"

datatype SigningMethod = SigningMethodRSA | SigningMethodOther string

record Token =
  Valid :: bool
  Method :: SigningMethod
  Header :: "string \<rightharpoonup> json"
  Claims :: MapClaims

text \<open>
  The error of \<open>jwt.Parse\<close> is a chain of sentinel errors; \<open>errors.Is(err, e)\<close> holds
  when \<open>e\<close> is in the chain.
\<close>

datatype jwtError = ErrTokenMalformed | ErrTokenSignatureInvalid | ErrTokenExpired
  | ErrTokenNotValidYet | ErrTokenUnverifiable | ErrTokenInvalidClaims

definition errors_Is :: "jwtError list \<Rightarrow> jwtError \<Rightarrow> bool" where
  "errors_Is err e = (e \<in> set err)"

text \<open>
  \<open>MapClaims.GetAudience\<close> of jwt/v5: a string is one audience, an array must hold
  strings only, and anything else (also an absent claim) is the empty list without error.
\<close>

fun claimStrings :: "json list \<Rightarrow> string list option" where
  "claimStrings [] = Some []"
| "claimStrings (JString v # vs) = map_option ((#) v) (claimStrings vs)"
| "claimStrings (_ # vs) = None"

definition GetAudience :: "MapClaims \<Rightarrow> string list \<times> error option" where
  "GetAudience m =
     (case m ''aud'' of
        Some (JString v) \<Rightarrow> ([v], None)
      | Some (JArray vs) \<Rightarrow>
          (case claimStrings vs of
             None \<Rightarrow> ([], Some ''invalid type for claim: aud is invalid'')
           | Some cs \<Rightarrow> (cs, None))
      | _ \<Rightarrow> ([], None))"

section \<open>The environment and the state of one execution environment\<close>

text \<open>An instant is a number of nanoseconds; \<open>t.After(u)\<close> is \<open>u < t\<close>.\<close>

type_synonym instant = int

record AuthTokenConfig =
  JwksUri :: string
  Issuer :: string
  ClientId :: string
  ClientSecret :: string
  TokenAudience :: string
  ClientAudience :: string
  GrantType :: string

record AuthCacheValue =
  Permissions :: "string list"
  Expiration :: instant

text \<open>
  \<open>AuthCacheValueEntity\<close> is the item of the durable table: every attribute the
  struct's fields marshal to (its fields \<open>Permissions\<close> and \<open>Expiration\<close> are
  \<open>PermissionsAttr\<close> and \<open>ExpirationAttr\<close> here). The table is written by \<open>TryPut\<close>
  only, so its items have this shape: marshalling the struct cannot fail, and
  unmarshalling an item into an \<open>AuthCacheValue\<close> can fail only where the timestamp is
  parsed.
\<close>

record AuthCacheValueEntity =
  PK :: string
  SK :: string
  PermissionsAttr :: "string list"
  ExpirationAttr :: string

record UserPermission =
  PermissionName :: string
  Description :: string
  ResourceServerName :: string
  ResourceServerId :: string

text \<open>
  What \<open>http.NewRequest\<close>, \<open>httpInstance.Do\<close> and the JSON decoder of the response body
  give for one call of the permissions endpoint.
\<close>

datatype body = Undecodable error | Decoded "UserPermission list"

datatype httpResult = RequestError error | TransportError error | Response nat body

text \<open>
  Everything the request path reads but does not change: the globals \<open>Authorizer.Config\<close>
  and \<open>cachedToken\<close> that \<open>InitLambda\<close> sets, and the behaviour of the libraries and
  services outside the repository, each taken as a parameter: \<open>jwt.Parse\<close> with the
  key function (the decoded token and the error), the identity provider's answer to a GET
  of a URL with an \<open>Authorization\<close> header, whether the table's \<open>GetItem\<close> and
  \<open>PutItem\<close> fail, and the clock (the instant that the n-th call of \<open>time.Now()\<close>
  returns). Both globals are taken to be set, as they are after \<open>InitLambda\<close> when
  \<open>acquireToken\<close> succeeded; a \<open>cachedToken\<close> that is still \<open>nil\<close> is not
  represented.
\<close>

record Env =
  Config :: AuthTokenConfig
  cachedToken :: string
  jwt_Parse :: "string \<Rightarrow> Token option \<times> jwtError list option"
  httpDo :: "string \<Rightarrow> string \<Rightarrow> httpResult"
  getItemErr :: "error option"
  putItemErr :: "error option"
  clock :: "nat \<Rightarrow> instant"

text \<open>
  Every access to a cache tier and every call of the permissions endpoint is recorded,
  in order, so that "no cache interaction" and "no upstream call" are statements about
  the trace.
\<close>

datatype event = CacheMapRead string | CacheMapWrite string
  | GetItem "string \<times> string" | PutItem AuthCacheValueEntity | HttpGet string

text \<open>
  What the request path changes: the global \<open>cacheMap\<close> (the ephemeral tier), the
  table (the durable tier, keyed by partition and sort key), the number of times the
  clock was read, and the trace.
\<close>

record State =
  cacheMap :: "string \<rightharpoonup> AuthCacheValue"
  table :: "string \<times> string \<rightharpoonup> AuthCacheValueEntity"
  reads :: nat
  trace :: "event list"

definition time_Now :: "Env \<Rightarrow> State \<Rightarrow> instant \<times> State" where
  "time_Now env s = (clock env (reads s), s\<lparr>reads := Suc (reads s)\<rparr>)"

definition log :: "event \<Rightarrow> State \<Rightarrow> State" where
  "log e s = s\<lparr>trace := trace s @ [e]\<rparr>"

section \<open>Timestamps\<close>

text \<open>\<open>%v\<close> of a non-negative integer: its decimal digits.\<close>

function Itoa :: "nat \<Rightarrow> string" where
  "Itoa n = (if n < 10 then [''0123456789'' ! n] else Itoa (n div 10) @ [''0123456789'' ! (n mod 10)])"
  by pat_completeness auto
termination
  by (relation "measure id") auto

declare Itoa.simps [simp del]

subsection \<open>The calendar of package \<open>time\<close>\<close>

text \<open>
  The proleptic Gregorian calendar in UTC, as \<open>time.Time\<close> computes it: an instant is
  cut into whole seconds and nanoseconds, the seconds into days and the second of the
  day, all rounding down, and the day number, counted from 1 January of year 1, into
  cycles of 400, 100, 4 and 1 years. There is a year 0 and there are negative years.
\<close>

definition isLeap :: "int \<Rightarrow> bool" where
  "isLeap year = (year mod 4 = 0 \<and> (year mod 100 \<noteq> 0 \<or> year mod 400 = 0))"

definition monthLengths :: "int \<Rightarrow> nat list" where
  "monthLengths year = [31, if isLeap year then 29 else 28, 31, 30, 31, 30, 31, 31, 30, 31, 30, 31]"

text \<open>\<open>daysIn(m, year)\<close>, called with a month from 1 to 12.\<close>

definition daysIn :: "nat \<Rightarrow> int \<Rightarrow> nat" where
  "daysIn month year = monthLengths year ! (month - 1)"

text \<open>The month and the day of the month of the day \<open>yday\<close> of a year, both counted from 1.\<close>

fun monthDay :: "nat list \<Rightarrow> nat \<Rightarrow> nat \<times> nat" where
  "monthDay [] yday = (1, Suc yday)"
| "monthDay (l # ls) yday =
     (if yday < l then (1, Suc yday)
      else (let (month, day) = monthDay ls (yday - l) in (Suc month, day)))"

text \<open>\<open>t.Date()\<close>: year, month and day of an instant.\<close>

definition Date :: "instant \<Rightarrow> int \<times> nat \<times> nat" where
  "Date t =
     (let d = (t div 1000000000) div 86400 + 719162;
          n400 = d div 146097; d400 = d mod 146097;
          n100 = min 3 (d400 div 36524); d100 = d400 - 36524 * n100;
          n4 = d100 div 1461; d4 = d100 mod 1461;
          n1 = min 3 (d4 div 365); yday = d4 - 365 * n1;
          year = 1 + 400 * n400 + 100 * n100 + 4 * n4 + n1;
          (month, day) = monthDay (monthLengths year) (nat yday)
      in (year, month, day))"

definition Year :: "instant \<Rightarrow> int" where
  "Year t = fst (Date t)"

text \<open>\<open>t.Clock()\<close>: hour, minute and second.\<close>

definition Clock :: "instant \<Rightarrow> nat \<times> nat \<times> nat" where
  "Clock t =
     (let s = nat ((t div 1000000000) mod 86400)
      in (s div 3600, s mod 3600 div 60, s mod 60))"

definition Nanosecond :: "instant \<Rightarrow> nat" where
  "Nanosecond t = nat (t mod 1000000000)"

text \<open>The days from 1 January 1970 to 1 January of a year.\<close>

definition daysSinceEpoch :: "int \<Rightarrow> int" where
  "daysSinceEpoch year =
     (let y = year - 1;
          n400 = y div 400; y400 = y mod 400;
          n100 = y400 div 100; y100 = y400 mod 100;
          n4 = y100 div 4; n1 = y100 mod 4
      in 146097 * n400 + 36524 * n100 + 1461 * n4 + 365 * n1 - 719162)"

text \<open>
  \<open>time.Date(year, month, day, hour, min, sec, nsec, time.UTC)\<close> for fields in their
  ranges, which is how the parser calls it.
\<close>

definition time_Date :: "int \<Rightarrow> nat \<Rightarrow> nat \<Rightarrow> nat \<Rightarrow> nat \<Rightarrow> nat \<Rightarrow> nat \<Rightarrow> instant" where
  "time_Date year month day hour minute sec nsec =
     ((daysSinceEpoch year + int (sum_list (take (month - 1) (monthLengths year))) + int day - 1) * 86400
        + int (hour * 3600 + minute * 60 + sec)) * 1000000000 + int nsec"

subsection \<open>Writing a timestamp: \<open>Format\<close> with the layout of authCache.go\<close>

definition timestampLayout :: string where
  "timestampLayout = ''2006-01-02T15:04:05.0000000Z''"

definition isDigit :: "char \<Rightarrow> bool" where
  "isDigit c = (c \<in> set ''0123456789'')"

definition digitVal :: "char \<Rightarrow> nat" where
  "digitVal c = of_char c - 48"

text \<open>
  \<open>appendInt(b, x, width)\<close>: a minus sign for a negative number, then the digits, with
  zeros in front up to the width. A number with more digits than the width keeps them all.
\<close>

definition appendInt :: "int \<Rightarrow> nat \<Rightarrow> string" where
  "appendInt x width =
     (let digits = Itoa (nat \<bar>x\<bar>)
      in (if x < 0 then ''-'' else []) @ replicate (width - length digits) (CHR ''0'') @ digits)"

text \<open>
  \<open>t.UTC().Format(layout)\<close>, for the layout elements that the layout of the repository
  is made of: \<open>2006\<close> (the year, four digits or more), \<open>01\<close>, \<open>02\<close>, \<open>15\<close>, \<open>04\<close>,
  \<open>05\<close> (month, day, hour, minute, second, two digits each), and a period or comma
  with zeros after it and no digit after them (that many digits of the fraction of the
  second, from the nine of the nanosecond). Every other byte stands for itself; the
  other elements that Go knows (names, twelve-hour clock, time zones) are not in the
  layout. \<open>appendFormat skip t layout\<close> has \<open>skip\<close> bytes of the last element still to
  pass.
\<close>

fun appendFormat :: "nat \<Rightarrow> instant \<Rightarrow> string \<Rightarrow> string" where
  "appendFormat skip t [] = []"
| "appendFormat (Suc k) t (c # layout) = appendFormat k t layout"
| "appendFormat 0 t (c # layout) =
     (if HasPrefix (c # layout) ''2006'' then appendInt (Year t) 4 @ appendFormat 3 t layout
      else if HasPrefix (c # layout) ''01''
        then appendInt (int (fst (snd (Date t)))) 2 @ appendFormat 1 t layout
      else if HasPrefix (c # layout) ''02''
        then appendInt (int (snd (snd (Date t)))) 2 @ appendFormat 1 t layout
      else if HasPrefix (c # layout) ''15''
        then appendInt (int (fst (Clock t))) 2 @ appendFormat 1 t layout
      else if HasPrefix (c # layout) ''04''
        then appendInt (int (fst (snd (Clock t)))) 2 @ appendFormat 1 t layout
      else if HasPrefix (c # layout) ''05''
        then appendInt (int (snd (snd (Clock t)))) 2 @ appendFormat 1 t layout
      else if (c = CHR ''.'' \<or> c = CHR '','') \<and> HasPrefix layout ''0''
            \<and> (case dropWhile (\<lambda>z. z = CHR ''0'') layout of [] \<Rightarrow> True | z # _ \<Rightarrow> \<not> isDigit z)
        then c # take (length (takeWhile (\<lambda>z. z = CHR ''0'') layout)) (appendInt (int (Nanosecond t)) 9)
               @ appendFormat (length (takeWhile (\<lambda>z. z = CHR ''0'') layout)) t layout
      else c # appendFormat 0 t layout)"

definition Format :: "instant \<Rightarrow> string \<Rightarrow> string" where
  "Format t layout = appendFormat 0 t layout"

subsection \<open>Reading a timestamp: \<open>time.Parse\<close> with the layout RFC 3339\<close>

text \<open>
  The attribute decoder of the SDK decodes a string attribute into a \<open>time.Time\<close> field
  with \<open>time.Parse(time.RFC3339, s)\<close>, the layout \<open>2006-01-02T15:04:05Z07:00\<close>. The
  parser takes the elements of that layout in turn. \<open>skip\<close> passes a literal byte and
  \<open>getnum\<close> reads one or two digits (two when \<open>fixed\<close>).
\<close>

definition skip :: "string \<Rightarrow> char \<Rightarrow> string option" where
  "skip str c = (case str of [] \<Rightarrow> None | v # rest \<Rightarrow> if v = c then Some rest else None)"

definition getnum :: "string \<Rightarrow> bool \<Rightarrow> (nat \<times> string) option" where
  "getnum s fixed =
     (case s of
        [] \<Rightarrow> None
      | a # rest \<Rightarrow>
          if \<not> isDigit a then None
          else (case rest of
                  [] \<Rightarrow> if fixed then None else Some (digitVal a, rest)
                | b # rest' \<Rightarrow>
                    if \<not> isDigit b then (if fixed then None else Some (digitVal a, rest))
                    else Some (digitVal a * 10 + digitVal b, rest')))"

definition decimal :: "string \<Rightarrow> nat" where
  "decimal s = foldl (\<lambda>x c. 10 * x + digitVal c) 0 s"

text \<open>The element \<open>2006\<close>: exactly four bytes, all digits.\<close>

definition parseYear :: "string \<Rightarrow> (nat \<times> string) option" where
  "parseYear str =
     (if length str < 4 \<or> \<not> list_all isDigit (take 4 str) then None
      else Some (decimal (take 4 str), drop 4 str))"

text \<open>
  After the seconds a fraction is read although the layout has none: a period or comma
  and all the digits after it, of which the first nine count, as nanoseconds.
\<close>

definition parseNanoseconds :: "string \<Rightarrow> nat \<times> string" where
  "parseNanoseconds str =
     (case str of
        c # d # rest \<Rightarrow>
          if (c = CHR ''.'' \<or> c = CHR '','') \<and> isDigit d
          then (let digits = take 9 (takeWhile isDigit (d # rest))
                in (decimal digits * 10 ^ (9 - length digits), dropWhile isDigit (d # rest)))
          else (0, str)
      | _ \<Rightarrow> (0, str))"

text \<open>
  The element \<open>Z07:00\<close>: the letter \<open>Z\<close>, or a sign, two digits of hours, a colon and
  two digits of minutes, at most 24 and 60; the result is the offset in seconds.
\<close>

definition parseZone :: "string \<Rightarrow> (int \<times> string) option" where
  "parseZone str =
     (case str of
        [] \<Rightarrow> None
      | sign # rest \<Rightarrow>
          if sign = CHR ''Z'' then Some (0, rest)
          else if length str < 6 \<or> str ! 3 \<noteq> CHR '':'' then None
          else (case (getnum (take 2 rest) True, getnum (take 2 (drop 3 rest)) True) of
                  (Some (hr, _), Some (mm, _)) \<Rightarrow>
                    if 24 < hr \<or> 60 < mm then None
                    else if sign = CHR ''+'' then Some (int ((hr * 60 + mm) * 60), drop 5 rest)
                    else if sign = CHR ''-'' then Some (- int ((hr * 60 + mm) * 60), drop 5 rest)
                    else None
                | _ \<Rightarrow> None))"

text \<open>
  The whole parse: \<open>None\<close> is any of its errors. Nothing may follow the zone; month,
  hour, minute and second must be in range, and the day must exist in its month.
\<close>

definition Parse_RFC3339 :: "string \<Rightarrow> instant option" where
  "Parse_RFC3339 str =
     Option.bind (parseYear str) (\<lambda>(year, v1).
     Option.bind (skip v1 (CHR ''-'')) (\<lambda>v2.
     Option.bind (getnum v2 True) (\<lambda>(month, v3).
     Option.bind (skip v3 (CHR ''-'')) (\<lambda>v4.
     Option.bind (getnum v4 True) (\<lambda>(day, v5).
     Option.bind (skip v5 (CHR ''T'')) (\<lambda>v6.
     Option.bind (getnum v6 False) (\<lambda>(hour, v7).
     Option.bind (skip v7 (CHR '':'')) (\<lambda>v8.
     Option.bind (getnum v8 True) (\<lambda>(minute, v9).
     Option.bind (skip v9 (CHR '':'')) (\<lambda>v10.
     Option.bind (getnum v10 True) (\<lambda>(sec, v11).
     (\<lambda>(nsec, v12).
     Option.bind (parseZone v12) (\<lambda>(zoneOffset, v13).
       if v13 \<noteq> [] then None
       else if month < 1 \<or> 12 < month \<or> 24 \<le> hour \<or> 60 \<le> minute \<or> 60 \<le> sec then None
       else if day < 1 \<or> daysIn month (int year) < day then None
       else Some (time_Date (int year) month day hour minute sec nsec - zoneOffset * 1000000000)))
     (parseNanoseconds v11))))))))))))"

text \<open>
  The text of the parser's error begins with \<open>parsing time\<close> and the value in quotes;
  what it says after that about the element that did not parse is left out here, and
  nothing in the repository reads it.
\<close>

definition parseError :: "string \<Rightarrow> error" where
  "parseError str = ''parsing time '' @ [CHR 0x22] @ str @ [CHR 0x22]"

section \<open>The two-tier cache (authCache.go)\<close>

text \<open>
  \<open>TryGet\<close>: a fresh entry of \<open>cacheMap\<close> is returned at once; otherwise the table is
  read, and its item is returned without looking at its expiration. \<open>&&\<close> reads the clock
  only when the key is present. Unmarshalling the item parses its timestamp.
\<close>

definition TryGet :: "Env \<Rightarrow> string \<Rightarrow> State \<Rightarrow> (AuthCacheValue option \<times> error option) \<times> State" where
  "TryGet env authId s =
     (let s1 = log (CacheMapRead authId) s;
          (hit, s2) = (case cacheMap s1 authId of
                         None \<Rightarrow> (False, s1)
                       | Some val \<Rightarrow> (let (now, s') = time_Now env s1 in (now < Expiration val, s')))
      in if hit then ((cacheMap s1 authId, None), s2)
         else let s3 = log (GetItem (authId, authId)) s2 in
           case getItemErr env of
             Some err \<Rightarrow>
               ((None, Some (''unable to retrieve cache value with id '' @ authId @ '': '' @ err)), s3)
           | None \<Rightarrow>
              (case table s3 (authId, authId) of
                 None \<Rightarrow> ((None, None), s3)
               | Some item \<Rightarrow>
                  (case Parse_RFC3339 (ExpirationAttr item) of
                     None \<Rightarrow>
                       ((None, Some (''unable to parse response: '' @ parseError (ExpirationAttr item))), s3)
                   | Some t \<Rightarrow>
                      ((Some \<lparr>Permissions = PermissionsAttr item, Expiration = t\<rparr>, None), s3))))"

text \<open>
  \<open>TryPut\<close>: the ephemeral tier is written first, whatever the table then does.
\<close>

definition TryPut :: "Env \<Rightarrow> string \<Rightarrow> AuthCacheValue \<Rightarrow> State \<Rightarrow> error option \<times> State" where
  "TryPut env authId val s =
     (let s1 = log (CacheMapWrite authId) (s\<lparr>cacheMap := (cacheMap s)(authId \<mapsto> val)\<rparr>);
          expiration = Format (Expiration val) timestampLayout;
          valueEntity = \<lparr>PK = authId, SK = authId,
                         PermissionsAttr = Permissions val, ExpirationAttr = expiration\<rparr>;
          s2 = log (PutItem valueEntity) s1
      in case putItemErr env of
           Some err \<Rightarrow> (Some (''unable to store authId cache value: '' @ err), s2)
         | None \<Rightarrow> (None, s2\<lparr>table := (table s2)((PK valueEntity, SK valueEntity) \<mapsto> valueEntity)\<rparr>))"

section \<open>User-type resolution (getUserPermissions)\<close>

text \<open>
  The request of the spawned goroutine and the decoding of its answer (lines 286 to 326):
  the error sent on \<open>errChan\<close>, or the permission names in the order of the response.
\<close>

definition requestPermissions :: "Env \<Rightarrow> string \<Rightarrow> error + string list" where
  "requestPermissions env principalId =
     (let reqUrl = Issuer (Config env) @ ''api/v2/users/'' @ principalId @ ''/permissions'' in
      case httpDo env reqUrl (''Bearer '' @ cachedToken env) of
        RequestError err \<Rightarrow> Inl err
      | TransportError err \<Rightarrow> Inl err
      | Response StatusCode respBody \<Rightarrow>
          if StatusCode \<noteq> 200
          then Inl (''error retrieving user permissions: '' @ Itoa StatusCode)
          else (case respBody of
                  Undecodable err \<Rightarrow> Inl (''error parsing user permissions: '' @ err)
                | Decoded perms \<Rightarrow> Inr (map PermissionName perms)))"

text \<open>
  The whole goroutine. The call of the endpoint is recorded when the request was built
  and handed to the client, not when \<open>http.NewRequest\<close> failed. On success the
  permissions are put into both tiers, expiring \<open>1000 * 900 * time.Millisecond\<close>
  (900 seconds, in nanoseconds) after the instant read at the write; the result of
  \<open>TryPut\<close> is dropped.
\<close>

definition fetchPermissions :: "Env \<Rightarrow> string \<Rightarrow> State \<Rightarrow> (error + string list) \<times> State" where
  "fetchPermissions env principalId s =
     (let reqUrl = Issuer (Config env) @ ''api/v2/users/'' @ principalId @ ''/permissions'';
          s1 = (case httpDo env reqUrl (''Bearer '' @ cachedToken env) of
                  RequestError err \<Rightarrow> s
                | _ \<Rightarrow> log (HttpGet reqUrl) s)
      in
      case requestPermissions env principalId of
        Inl err \<Rightarrow> (Inl err, s1)
      | Inr permissionsArray \<Rightarrow>
          (let (now, s2) = time_Now env s1;
               (_, s3) = TryPut env principalId
                  \<lparr>Permissions = permissionsArray, Expiration = now + 1000 * 900 * 1000000\<rparr> s2
           in (Inr permissionsArray, s3)))"

text \<open>
  \<open>authCache != nil && authCache.Expiration.After(time.Now())\<close>, the test of lines 279
  and 336 on the local variable \<open>authCache\<close>.
\<close>

definition fresh :: "Env \<Rightarrow> AuthCacheValue option \<Rightarrow> State \<Rightarrow> bool \<times> State" where
  "fresh env authCache s =
     (case authCache of
        None \<Rightarrow> (False, s)
      | Some val \<Rightarrow> (let (now, s') = time_Now env s in (now < Expiration val, s')))"

definition joined :: "AuthCacheValue option \<Rightarrow> string" where
  "joined authCache = (case authCache of None \<Rightarrow> [] | Some val \<Rightarrow> Join (Permissions val) '','')"

text \<open>
  Lines 279 to 349, from the value \<open>authCache\<close> that the lookup of line 278 gave. The
  goroutine is dispatched, the test is made again on the same local variable, and the
  goroutine runs to its end whether or not its result is awaited.
\<close>

definition resolveWith ::
  "Env \<Rightarrow> string \<Rightarrow> AuthCacheValue option \<Rightarrow> State \<Rightarrow> (string \<times> error option) \<times> State" where
  "resolveWith env principalId authCache s =
     (let (usable, s1) = fresh env authCache s in
      if usable then ((joined authCache, None), s1)
      else let (usableNow, s2) = fresh env authCache s1;
               (fetched, s3) = fetchPermissions env principalId s2
           in if usableNow then ((joined authCache, None), s3)
              else (case fetched of
                      Inr permissionsArray \<Rightarrow> ((Join permissionsArray '','', None), s3)
                    | Inl err \<Rightarrow> (([], Some err), s3)))"

text \<open>
  \<open>getUserPermissions\<close>, with what other invocations in the same process do to the
  shared state between the lookup of line 278 and the second test of line 336 as the
  parameter \<open>others\<close>. The error of \<open>TryGet\<close> is assigned to \<open>_\<close>.
\<close>

definition getUserPermissions_among ::
  "(State \<Rightarrow> State) \<Rightarrow> Env \<Rightarrow> string \<Rightarrow> State \<Rightarrow> (string \<times> error option) \<times> State" where
  "getUserPermissions_among others env principalId s =
     (let ((authCache, _), s1) = TryGet env principalId s
      in resolveWith env principalId authCache (others s1))"

definition getUserPermissions :: "Env \<Rightarrow> string \<Rightarrow> State \<Rightarrow> (string \<times> error option) \<times> State" where
  "getUserPermissions env principalId s = getUserPermissions_among id env principalId s"

section \<open>The decision builders\<close>

record IAMPolicyStatement =
  Action :: "string list"
  Effect :: string
  Resource :: "string list"

record APIGatewayCustomAuthorizerPolicy =
  Version :: string
  Statement :: "IAMPolicyStatement list"

record APIGatewayCustomAuthorizerResponse =
  PrincipalID :: string
  PolicyDocument :: APIGatewayCustomAuthorizerPolicy
  Context :: "string \<rightharpoonup> string"

definition getDenyResponse :: "string \<Rightarrow> string \<Rightarrow> string \<Rightarrow> APIGatewayCustomAuthorizerResponse" where
  "getDenyResponse principalId methodArn message =
     (let context = Map.empty(''ErrorMessage'' \<mapsto> message);
          policyStatement = \<lparr>Action = [''execute-api:Invoke''], Effect = ''Deny'', Resource = [methodArn]\<rparr>;
          policyDocument = \<lparr>Version = ''2012-10-17'', Statement = [policyStatement]\<rparr>
      in \<lparr>PrincipalID = principalId, PolicyDocument = policyDocument, Context = context\<rparr>)"

definition getSuccessResponse ::
  "string \<Rightarrow> string \<Rightarrow> (string \<rightharpoonup> string) \<Rightarrow> APIGatewayCustomAuthorizerResponse" where
  "getSuccessResponse principalId methodArn context =
     (let policyStatement = \<lparr>Action = [''execute-api:Invoke''], Effect = ''Allow'', Resource = [methodArn]\<rparr>;
          policyDocument = \<lparr>Version = ''2012-10-17'', Statement = [policyStatement]\<rparr>
      in \<lparr>PrincipalID = principalId, PolicyDocument = policyDocument, Context = context\<rparr>)"

section \<open>The handler\<close>

text \<open>The \<open>switch\<close> of lines 187 to 196: the first case that holds gives the message.\<close>

definition decodeErrorMessage :: "jwtError list \<Rightarrow> string" where
  "decodeErrorMessage err =
     (if errors_Is err ErrTokenMalformed then ''Unauthorized: Malformed Token''
      else if errors_Is err ErrTokenSignatureInvalid then ''Unauthorized: Invalid Signature''
      else if errors_Is err ErrTokenExpired \<or> errors_Is err ErrTokenNotValidYet
        then ''Unauthorized: Expired Token''
      else ''Unauthorized: Unable to decode token'')"

text \<open>
  \<open>x.(string)\<close> on a claim: the one-result form of line 224 panics when the claim is not
  a string, the two-result form of lines 230 and 238 gives \<open>ok = false\<close>.
\<close>

definition asString :: "json option \<Rightarrow> string option" where
  "asString v = (case v of Some (JString str) \<Rightarrow> Some str | _ \<Rightarrow> None)"

text \<open>
  The handler returns the pair \<open>(resp, err)\<close> and the state it leaves. Lines 218 to 272,
  for a token that is not \<open>nil\<close>, are \<open>Handler_claims\<close>; the goroutine of line 254 and the
  \<open>select\<close> of line 264 wait for the one result of \<open>getUserPermissions\<close>.
\<close>

type_synonym HandlerResult =
  "((APIGatewayCustomAuthorizerResponse \<times> error option) \<times> State) go"

definition Handler_claims ::
  "Env \<Rightarrow> State \<Rightarrow> APIGatewayCustomAuthorizerRequest \<Rightarrow> Token \<Rightarrow> HandlerResult" where
  "Handler_claims env s req decodedToken =
     (let tokenPayload = Claims decodedToken;
          deny = (\<lambda>principalId message st.
                    Returns ((getDenyResponse principalId (MethodArn req) message, None), st))
      in
      if \<not> Valid decodedToken then deny [] ''Unauthorized: Token failed validation'' s
      else if Method decodedToken \<noteq> SigningMethodRSA
        then deny [] ''Unauthorized: Token uses invalid signing method'' s
      else if Header decodedToken ''alg'' = None \<or> Header decodedToken ''alg'' = Some JNull
        then deny [] ''Unauthorized: Token missing required 'alg' claim'' s
      else case asString (tokenPayload ''iss'') of
        None \<Rightarrow> Panic InterfaceConversion
      | Some iss \<Rightarrow>
        if \<not> Contains iss (Issuer (Config env))
        then deny [] ''Unauthorized: Token uses invalid 'iss' claim'' s
        else case asString (tokenPayload ''sub'') of
          None \<Rightarrow> deny [] ''Unauthorized: Token missing required 'sub' claim'' s
        | Some principalId \<Rightarrow>
          (let lContext = Map.empty(''requesterId'' \<mapsto> principalId);
               isAppToken = (\<not> Contains principalId ''auth0'')
           in case asString (tokenPayload ''scope'') of
             None \<Rightarrow> deny principalId ''Unauthorized: Token missing required 'roles' claim'' s
           | Some scopes \<Rightarrow>
             if isAppToken
             then (let scopesArray = Split scopes (CHR '' '') in
                   Returns ((getSuccessResponse principalId (MethodArn req)
                               (lContext(''permissions'' \<mapsto> Join scopesArray '','')), None), s))
             else (case getUserPermissions env principalId s of
                     ((permissionsArray, None), s') \<Rightarrow>
                       Returns ((getSuccessResponse principalId (MethodArn req)
                                   (lContext(''permissions'' \<mapsto> permissionsArray)), None), s')
                   | ((_, Some err), s') \<Rightarrow> deny principalId err s')))"

definition Handler ::
  "Env \<Rightarrow> State \<Rightarrow> APIGatewayCustomAuthorizerRequest \<Rightarrow> HandlerResult" where
  "Handler env s req =
     (let deny = (\<lambda>message. Returns ((getDenyResponse [] (MethodArn req) message, None), s)) in
      case getToken req of
        Panic p \<Rightarrow> Panic p
      | Returns (token, Some err) \<Rightarrow> deny ''Unauthorized''
      | Returns (token, None) \<Rightarrow>
         (case jwt_Parse env token of
            (decodedToken, Some err) \<Rightarrow> deny (decodeErrorMessage err)
          | (decodedToken, None) \<Rightarrow>
             (let tokenPayload = (case decodedToken of None \<Rightarrow> Map.empty | Some t \<Rightarrow> Claims t) in
              case GetAudience tokenPayload of
                (audClaims, Some err) \<Rightarrow>
                  deny ''Unauthorized: Token missing 'aud' claim or claim is invalid''
              | (audClaims, None) \<Rightarrow>
                  if TokenAudience (Config env) \<notin> set audClaims
                  then deny ''Unauthorized: Token 'aud' claim missing registered audience''
                  else (case decodedToken of
                          None \<Rightarrow> Panic NilDereference
                        | Some t \<Rightarrow> Handler_claims env s req t))))"

section \<open>Predicates of the statements\<close>

text \<open>No white-space character starts at any position of the string.\<close>

fun noSpace :: "string \<Rightarrow> bool" where
  "noSpace [] = True"
| "noSpace (c # cs) = (spaceWidth (c # cs) = 0 \<and> noSpace cs)"

text \<open>A number in a fixed count of decimal digits, the low digits when it has more.\<close>

fun digitsW :: "nat \<Rightarrow> nat \<Rightarrow> string" where
  "digitsW 0 n = []"
| "digitsW (Suc w) n = digitsW w (n div 10) @ [''0123456789'' ! (n mod 10)]"

text \<open>
  The request reaches line 228 with the decoded token \<open>t\<close>: a token was extracted and
  decoded without error, its audiences hold the configured one, it is valid, signed with
  RSA, has an \<open>alg\<close> header, and its issuer is a string that contains the configured one.
\<close>

definition verified :: "Env \<Rightarrow> APIGatewayCustomAuthorizerRequest \<Rightarrow> Token \<Rightarrow> bool" where
  "verified env req t =
     ((case getToken req of
         Returns (token, None) \<Rightarrow> jwt_Parse env token = (Some t, None)
       | _ \<Rightarrow> False)
      \<and> snd (GetAudience (Claims t)) = None
      \<and> TokenAudience (Config env) \<in> set (fst (GetAudience (Claims t)))
      \<and> Valid t \<and> Method t = SigningMethodRSA
      \<and> Header t ''alg'' \<noteq> None \<and> Header t ''alg'' \<noteq> Some JNull
      \<and> (case asString (Claims t ''iss'') of
            None \<Rightarrow> False
          | Some iss \<Rightarrow> Contains iss (Issuer (Config env))))"

text \<open>
  The instant read at the write of a resolution that finds \<open>authCache\<close> unusable: the
  clock is read once for each of the two tests when there is an entry, then by the
  goroutine.
\<close>

definition writeInstant :: "Env \<Rightarrow> AuthCacheValue option \<Rightarrow> State \<Rightarrow> instant" where
  "writeInstant env authCache s =
     clock env (reads (snd (fresh env authCache (snd (fresh env authCache s)))))"

section \<open>A concrete environment\<close>

text \<open>
  An environment to evaluate the handler in: an identity provider at
  \<open>https://idp.example/\<close>, a decoder that accepts every token string with the given
  claims, a permissions endpoint with one fixed answer, and a clock that starts at the
  Unix epoch and advances by one nanosecond at each reading.
\<close>

definition exampleConfig :: AuthTokenConfig where
  "exampleConfig =
     \<lparr>JwksUri = ''https://idp.example/.well-known/jwks.json'',
      Issuer = ''https://idp.example/'',
      ClientId = ''client'', ClientSecret = ''secret'',
      TokenAudience = ''https://api.example'',
      ClientAudience = ''https://idp.example/api/v2/'',
      GrantType = ''client_credentials''\<rparr>"

definition exampleClaims :: "json option \<Rightarrow> json option \<Rightarrow> json option \<Rightarrow> MapClaims" where
  "exampleClaims iss sub scope =
     (\<lambda>k. if k = ''iss'' then iss
          else if k = ''aud'' then Some (JArray [JString ''https://api.example'', JString ''https://idp.example/userinfo''])
          else if k = ''sub'' then sub
          else if k = ''scope'' then scope
          else None)"

definition exampleToken :: "MapClaims \<Rightarrow> Token" where
  "exampleToken claims =
     \<lparr>Valid = True, Method = SigningMethodRSA,
      Header = Map.empty(''alg'' \<mapsto> JString ''RS256''), Claims = claims\<rparr>"

definition exampleEnv :: "MapClaims \<Rightarrow> httpResult \<Rightarrow> error option \<Rightarrow> Env" where
  "exampleEnv claims upstream getErr =
     \<lparr>Config = exampleConfig, cachedToken = ''service-token'',
      jwt_Parse = (\<lambda>token. (Some (exampleToken claims), None)),
      httpDo = (\<lambda>url authorization. upstream),
      getItemErr = getErr, putItemErr = None,
      clock = (\<lambda>n. int n)\<rparr>"

definition emptyState :: State where
  "emptyState = \<lparr>cacheMap = Map.empty, table = Map.empty, reads = 0, trace = []\<rparr>"

definition bearer :: "string \<Rightarrow> APIGatewayCustomAuthorizerRequest" where
  "bearer header = \<lparr>Type = ''TOKEN'', AuthorizationToken = header, MethodArn = ''arn:aws:execute-api:GET/items''\<rparr>"

definition permission :: "string \<Rightarrow> UserPermission" where
  "permission name =
     \<lparr>PermissionName = name, Description = [], ResourceServerName = [], ResourceServerId = []\<rparr>"

definition userEnv :: "httpResult \<Rightarrow> error option \<Rightarrow> Env" where
  "userEnv upstream getErr =
     exampleEnv (exampleClaims (Some (JString ''https://idp.example/''))
                   (Some (JString ''auth0|u1'')) (Some (JString ''openid profile'')))
       upstream getErr"

definition appEnv :: "string \<Rightarrow> string \<Rightarrow> Env" where
  "appEnv sub scope =
     exampleEnv (exampleClaims (Some (JString ''https://idp.example/''))
                   (Some (JString sub)) (Some (JString scope)))
       (TransportError ''unreachable'') None"

text \<open>The pair \<open>(resp, err)\<close> of a handler that returned.\<close>

definition responseOf ::
  "HandlerResult \<Rightarrow> (APIGatewayCustomAuthorizerResponse \<times> error option) option" where
  "responseOf r = (case r of Returns (re, s) \<Rightarrow> Some re | Panic p \<Rightarrow> None)"

text \<open>
  What another resolution for the same subject does to the shared state when its fetch
  completes: the write of line 328.
\<close>

definition concurrentPut :: "Env \<Rightarrow> string \<Rightarrow> AuthCacheValue \<Rightarrow> State \<Rightarrow> State" where
  "concurrentPut env authId val s = snd (TryPut env authId val s)"

section \<open>Evaluation\<close>

lemmas strings_eval = MatchString_Bearer_def Fields_def spaceWidth_def spaceRunes_def

lemmas example_eval = exampleEnv_def exampleToken_def exampleClaims_def exampleConfig_def
  bearer_def emptyState_def permission_def

lemmas handler_eval = Handler_def Handler_claims_def getToken_def GetAudience_def asString_def

lemmas resolver_eval = getUserPermissions_def getUserPermissions_among_def resolveWith_def
  fresh_def joined_def fetchPermissions_def requestPermissions_def TryGet_def TryPut_def
  time_Now_def log_def

section \<open>The bearer-token extractor\<close>

lemma fieldsFrom_noSpace:
  "noSpace r \<Longrightarrow> fieldsFrom 0 cur r = (if cur @ r = [] then [] else [cur @ r])"
  by (induction r arbitrary: cur) auto

lemma Fields_Bearer_token:
  "noSpace r \<Longrightarrow> r \<noteq> [] \<Longrightarrow> Fields (''Bearer '' @ r) = [''Bearer'', r]"
  by (simp add: strings_eval fieldsFrom_noSpace)

text \<open>
  C1. The claim: no step of the validation or resolution path aborts; a header that is
  \<open>Bearer\<close> plus one space with nothing after it, and a verified token whose \<open>iss\<close>
  claim is absent or not a string, give a typed outcome and a Deny decision. The code
  panics on both: the header matches the pattern and has one field, so \<open>tokenParts[1]\<close>
  is out of range; and line 224 asserts \<open>.(string)\<close> on \<open>iss\<close> in the one-result form,
  where lines 230 and 238 use the two-result form for \<open>sub\<close> and \<open>scope\<close>.
\<close>

theorem Handler_panics:
  "Handler (exampleEnv (exampleClaims None None None) (TransportError ''unreachable'') None)
      emptyState (bearer ''Bearer '') = Panic IndexOutOfRange
   \<and> Handler (exampleEnv (exampleClaims None (Some (JString ''auth0|u1'')) (Some (JString ''openid'')))
        (TransportError ''unreachable'') None)
      emptyState (bearer ''Bearer e30.e30.sig'') = Panic InterfaceConversion
   \<and> Handler (exampleEnv (exampleClaims (Some (JNumber 7)) (Some (JString ''auth0|u1'')) (Some (JString ''openid'')))
        (TransportError ''unreachable'') None)
      emptyState (bearer ''Bearer e30.e30.sig'') = Panic InterfaceConversion"
  by (simp add: handler_eval strings_eval example_eval)

text \<open>
  C2, as amended. The extractor fails for every request whose type is not \<open>TOKEN\<close> or
  whose header does not contain \<open>Bearer\<close> plus one space anywhere in it; for a header
  that is this prefix followed by a non-empty remainder without white space it returns
  exactly the remainder; and whenever it succeeds, what it returns is the second
  white-space-separated field of the header.
\<close>

theorem getToken_second_field:
  "(Type ev \<noteq> ''TOKEN'' \<or> \<not> Contains (AuthorizationToken ev) ''Bearer ''
      \<longrightarrow> (\<exists>err. getToken ev = Returns ([], Some err)))
   \<and> (Type ev = ''TOKEN'' \<and> AuthorizationToken ev = ''Bearer '' @ r \<and> r \<noteq> [] \<and> noSpace r
      \<longrightarrow> getToken ev = Returns (r, None))
   \<and> (getToken ev = Returns (t, None)
      \<longrightarrow> Type ev = ''TOKEN'' \<and> Contains (AuthorizationToken ev) ''Bearer ''
          \<and> 1 < length (Fields (AuthorizationToken ev)) \<and> t = Fields (AuthorizationToken ev) ! 1)"
proof (intro conjI impI)
  assume "Type ev \<noteq> ''TOKEN'' \<or> \<not> Contains (AuthorizationToken ev) ''Bearer ''"
  then show "\<exists>err. getToken ev = Returns ([], Some err)"
    by (auto simp: getToken_def MatchString_Bearer_def Let_def)
next
  assume a: "Type ev = ''TOKEN'' \<and> AuthorizationToken ev = ''Bearer '' @ r \<and> r \<noteq> [] \<and> noSpace r"
  then have "Fields (AuthorizationToken ev) = [''Bearer'', r]"
    using Fields_Bearer_token [of r] by simp
  with a show "getToken ev = Returns (r, None)"
    by (simp add: getToken_def MatchString_Bearer_def)
next
  assume "getToken ev = Returns (t, None)"
  then show "Type ev = ''TOKEN''" "Contains (AuthorizationToken ev) ''Bearer ''"
    "1 < length (Fields (AuthorizationToken ev))" "t = Fields (AuthorizationToken ev) ! 1"
    by (auto simp: getToken_def MatchString_Bearer_def Let_def split: if_splits)
qed

theorem getToken_second_field_witness:
  "getToken (bearer ''Bearer abc.def'') = Returns (''abc.def'', None)
   \<and> (\<exists>err. getToken (bearer ''bearer abc'') = Returns ([], Some err))"
  using getToken_second_field [of "bearer ''Bearer abc.def''" "''abc.def''"]
    getToken_second_field [of "bearer ''bearer abc''"]
  by (simp add: bearer_def spaceWidth_def spaceRunes_def)

text \<open>
  C2 as stated fails: a header that does not start with the prefix is accepted, and what
  is returned then is not what follows the prefix; and a remainder with a space in it is
  returned only up to the space.
\<close>

theorem getToken_prefix_counterexample:
  "getToken (bearer ''Basic Bearer abc'') = Returns (''Bearer'', None)
   \<and> \<not> HasPrefix ''Basic Bearer abc'' ''Bearer ''
   \<and> getToken (bearer ''Bearer abc def'') = Returns (''abc'', None)
   \<and> ''abc'' \<noteq> ''abc def''"
  by (simp add: bearer_def getToken_def strings_eval)

section \<open>What the handler returns\<close>

lemma Handler_claims_returns:
  assumes "Handler_claims env s req t = Returns ((resp, err), s')"
  shows "err = None \<and>
    ((\<exists>principalId message. resp = getDenyResponse principalId (MethodArn req) message)
     \<or> (\<exists>principalId permissions.
           resp = getSuccessResponse principalId (MethodArn req)
                    (Map.empty(''requesterId'' \<mapsto> principalId, ''permissions'' \<mapsto> permissions))))"
  using assms unfolding Handler_claims_def Let_def
  by (auto split: if_splits option.splits prod.splits)

text \<open>
  The handler panics, or denies with an empty principal and the state untouched, or goes
  on to the claims of a decoded token.
\<close>

lemma Handler_paths:
  "(\<exists>p. Handler env s req = Panic p)
   \<or> (\<exists>message. Handler env s req = Returns ((getDenyResponse [] (MethodArn req) message, None), s))
   \<or> (\<exists>t. Handler env s req = Handler_claims env s req t)"
proof (cases "getToken req")
  case (Panic p)
  then show ?thesis by (simp add: Handler_def)
next
  case (Returns r)
  obtain token e where r: "r = (token, e)" by (cases r)
  obtain decodedToken e' where p: "jwt_Parse env token = (decodedToken, e')"
    by (cases "jwt_Parse env token")
  obtain audClaims e'' where
    a: "GetAudience (case decodedToken of None \<Rightarrow> Map.empty | Some t \<Rightarrow> Claims t) = (audClaims, e'')"
    by (cases "GetAudience (case decodedToken of None \<Rightarrow> Map.empty | Some t \<Rightarrow> Claims t)")
  have "decodedToken = None \<Longrightarrow> audClaims = []"
    using a by (auto simp: GetAudience_def)
  then show ?thesis
    using Returns r p a
    by (cases e; cases e'; cases e''; cases decodedToken) (simp_all add: Handler_def, blast+)
qed

lemma Handler_returns:
  assumes "Handler env s req = Returns ((resp, err), s')"
  shows "err = None \<and>
    ((\<exists>principalId message. resp = getDenyResponse principalId (MethodArn req) message)
     \<or> (\<exists>principalId permissions.
           resp = getSuccessResponse principalId (MethodArn req)
                    (Map.empty(''requesterId'' \<mapsto> principalId, ''permissions'' \<mapsto> permissions))))"
proof -
  from Handler_paths [of env s req] consider
      (panic) p where "Handler env s req = Panic p"
    | (deny) message where
        "Handler env s req = Returns ((getDenyResponse [] (MethodArn req) message, None), s)"
    | (claims) t where "Handler env s req = Handler_claims env s req t"
    by blast
  then show ?thesis
  proof cases
    case panic
    with assms show ?thesis by simp
  next
    case deny
    with assms have "resp = getDenyResponse [] (MethodArn req) message" and "err = None"
      by simp_all
    then show ?thesis by blast
  next
    case claims
    with assms have "Handler_claims env s req t = Returns ((resp, err), s')" by simp
    then show ?thesis by (rule Handler_claims_returns)
  qed
qed

lemma deny_shape:
  assumes deny: "resp = getDenyResponse principalId arn message"
  shows "PolicyDocument resp =
       \<lparr>Version = ''2012-10-17'',
        Statement = [\<lparr>Action = [''execute-api:Invoke''], Effect = ''Deny'', Resource = [arn]\<rparr>]\<rparr>"
    and "dom (Context resp) = {''ErrorMessage''}"
  by (simp_all add: deny getDenyResponse_def)

lemma allow_shape:
  assumes allow: "resp = getSuccessResponse principalId arn
                    (Map.empty(''requesterId'' \<mapsto> principalId, ''permissions'' \<mapsto> permissions))"
  shows "PolicyDocument resp =
       \<lparr>Version = ''2012-10-17'',
        Statement = [\<lparr>Action = [''execute-api:Invoke''], Effect = ''Allow'', Resource = [arn]\<rparr>]\<rparr>"
    and "Context resp =
        Map.empty(''requesterId'' \<mapsto> PrincipalID resp, ''permissions'' \<mapsto> Join [permissions] '','')"
  by (simp_all add: allow getSuccessResponse_def)

lemma example_app_request:
  "Handler (exampleEnv (exampleClaims (Some (JString ''https://idp.example/''))
               (Some (JString ''svc@clients'')) (Some (JString ''read:items write:items'')))
             (TransportError ''unreachable'') None)
      emptyState (bearer ''Bearer e30.e30.sig'')
   = Returns ((getSuccessResponse ''svc@clients'' ''arn:aws:execute-api:GET/items''
                 (Map.empty(''requesterId'' \<mapsto> ''svc@clients'',
                            ''permissions'' \<mapsto> ''read:items,write:items'')), None), emptyState)"
  by (simp add: handler_eval strings_eval example_eval)

text \<open>
  C10. Whenever the handler returns, the error it returns is \<open>nil\<close>: every outcome is in
  the response.
\<close>

theorem Handler_error_is_nil:
  "Handler env s req = Returns ((resp, err), s') \<Longrightarrow> err = None"
  by (drule Handler_returns) (rule conjunct1)

theorem Handler_error_is_nil_witness:
  "\<exists>resp err s'.
     Handler (exampleEnv (exampleClaims (Some (JString ''https://idp.example/''))
               (Some (JString ''svc@clients'')) (Some (JString ''read:items write:items'')))
             (TransportError ''unreachable'') None)
       emptyState (bearer ''Bearer e30.e30.sig'') = Returns ((resp, err), s')
     \<and> err = None"
  using example_app_request Handler_error_is_nil [OF example_app_request] by blast

text \<open>
  C9. Every response of the handler has the policy version \<open>2012-10-17\<close> and exactly one
  statement, with the action \<open>execute-api:Invoke\<close>, the effect Allow or Deny and the
  request's method ARN as the one resource. The context of a Deny is an \<open>ErrorMessage\<close>
  entry and nothing else; the context of an Allow is \<open>requesterId\<close>, the principal, and
  \<open>permissions\<close>, a list joined with commas, and nothing else.
\<close>

theorem Handler_response_shape:
  assumes "Handler env s req = Returns ((resp, err), s')"
  shows "\<exists>effect.
     PolicyDocument resp =
       \<lparr>Version = ''2012-10-17'',
        Statement = [\<lparr>Action = [''execute-api:Invoke''], Effect = effect, Resource = [MethodArn req]\<rparr>]\<rparr>
     \<and> (effect = ''Deny'' \<and> dom (Context resp) = {''ErrorMessage''}
        \<or> effect = ''Allow''
          \<and> (\<exists>permissions. Context resp =
                Map.empty(''requesterId'' \<mapsto> PrincipalID resp, ''permissions'' \<mapsto> Join permissions '','')))"
proof -
  from Handler_returns [OF assms]
  have "(\<exists>principalId message. resp = getDenyResponse principalId (MethodArn req) message)
     \<or> (\<exists>principalId permissions.
           resp = getSuccessResponse principalId (MethodArn req)
                    (Map.empty(''requesterId'' \<mapsto> principalId, ''permissions'' \<mapsto> permissions)))"
    by (rule conjunct2)
  then show ?thesis
  proof (elim disjE exE)
    fix principalId message
    assume deny: "resp = getDenyResponse principalId (MethodArn req) message"
    show ?thesis
      apply (rule exI)
      apply (rule conjI)
       apply (rule deny_shape(1) [OF deny])
      apply (rule disjI1)
      apply (rule conjI)
       apply (rule refl)
      apply (rule deny_shape(2) [OF deny])
      done
  next
    fix principalId permissions
    assume allow: "resp = getSuccessResponse principalId (MethodArn req)
                    (Map.empty(''requesterId'' \<mapsto> principalId, ''permissions'' \<mapsto> permissions))"
    show ?thesis
      apply (rule exI)
      apply (rule conjI)
       apply (rule allow_shape(1) [OF allow])
      apply (rule disjI2)
      apply (rule conjI)
       apply (rule refl)
      apply (rule exI)
      apply (rule allow_shape(2) [OF allow])
      done
  qed
qed

theorem Handler_response_shape_witness:
  "Handler (exampleEnv (exampleClaims (Some (JString ''https://idp.example/''))
               (Some (JString ''svc@clients'')) (Some (JString ''read:items write:items'')))
             (TransportError ''unreachable'') None)
      emptyState (bearer ''Bearer e30.e30.sig'')
   = Returns ((getSuccessResponse ''svc@clients'' ''arn:aws:execute-api:GET/items''
                 (Map.empty(''requesterId'' \<mapsto> ''svc@clients'',
                            ''permissions'' \<mapsto> ''read:items,write:items'')), None), emptyState)
   \<and> (\<exists>effect.
     PolicyDocument (getSuccessResponse ''svc@clients'' ''arn:aws:execute-api:GET/items''
                 (Map.empty(''requesterId'' \<mapsto> ''svc@clients'',
                            ''permissions'' \<mapsto> ''read:items,write:items''))) =
       \<lparr>Version = ''2012-10-17'',
        Statement = [\<lparr>Action = [''execute-api:Invoke''], Effect = effect,
                      Resource = [MethodArn (bearer ''Bearer e30.e30.sig'')]\<rparr>]\<rparr>
     \<and> (effect = ''Deny''
          \<and> dom (Context (getSuccessResponse ''svc@clients'' ''arn:aws:execute-api:GET/items''
                 (Map.empty(''requesterId'' \<mapsto> ''svc@clients'',
                            ''permissions'' \<mapsto> ''read:items,write:items'')))) = {''ErrorMessage''}
        \<or> effect = ''Allow''
          \<and> (\<exists>permissions.
               Context (getSuccessResponse ''svc@clients'' ''arn:aws:execute-api:GET/items''
                 (Map.empty(''requesterId'' \<mapsto> ''svc@clients'',
                            ''permissions'' \<mapsto> ''read:items,write:items''))) =
                Map.empty(''requesterId'' \<mapsto>
                   PrincipalID (getSuccessResponse ''svc@clients'' ''arn:aws:execute-api:GET/items''
                     (Map.empty(''requesterId'' \<mapsto> ''svc@clients'',
                            ''permissions'' \<mapsto> ''read:items,write:items''))),
                  ''permissions'' \<mapsto> Join permissions '',''))))"
  using example_app_request Handler_response_shape [OF example_app_request]
  by (rule conjI)

section \<open>The claims of a verified token\<close>

lemma asString_None_iff: "asString v = None \<longleftrightarrow> (\<nexists>str. v = Some (JString str))"
  by (auto simp: asString_def split: option.splits json.splits)

lemma asString_Some_iff: "asString v = Some str \<longleftrightarrow> v = Some (JString str)"
  by (auto simp: asString_def split: option.splits json.splits)

lemma verified_Handler:
  assumes "verified env req t"
  shows "Handler env s req = Handler_claims env s req t"
proof -
  obtain token where tok: "getToken req = Returns (token, None)"
    and parse: "jwt_Parse env token = (Some t, None)"
    using assms by (auto simp: verified_def split: go.splits option.splits prod.splits)
  obtain audClaims where aud: "GetAudience (Claims t) = (audClaims, None)"
    and located: "TokenAudience (Config env) \<in> set audClaims"
    using assms by (cases "GetAudience (Claims t)") (auto simp: verified_def)
  show ?thesis
    by (simp add: Handler_def tok parse aud located)
qed

text \<open>Lines 228 to 272 for a verified token.\<close>

lemma verified_claims:
  assumes "verified env req t"
  shows "Handler_claims env s req t =
    (case asString (Claims t ''sub'') of
       None \<Rightarrow> Returns ((getDenyResponse [] (MethodArn req)
                   ''Unauthorized: Token missing required 'sub' claim'', None), s)
     | Some principalId \<Rightarrow>
        (case asString (Claims t ''scope'') of
           None \<Rightarrow> Returns ((getDenyResponse principalId (MethodArn req)
                       ''Unauthorized: Token missing required 'roles' claim'', None), s)
         | Some scopes \<Rightarrow>
            if \<not> Contains principalId ''auth0''
            then Returns ((getSuccessResponse principalId (MethodArn req)
                     (Map.empty(''requesterId'' \<mapsto> principalId,
                                ''permissions'' \<mapsto> Join (Split scopes (CHR '' '')) '','')), None), s)
            else (case getUserPermissions env principalId s of
                     ((permissionsArray, None), s') \<Rightarrow>
                       Returns ((getSuccessResponse principalId (MethodArn req)
                                   (Map.empty(''requesterId'' \<mapsto> principalId,
                                     ''permissions'' \<mapsto> permissionsArray)), None), s')
                   | ((_, Some err), s') \<Rightarrow>
                       Returns ((getDenyResponse principalId (MethodArn req) err, None), s'))))"
proof -
  from assms obtain iss where "asString (Claims t ''iss'') = Some iss"
    and "Contains iss (Issuer (Config env))"
    and "Valid t" and "Method t = SigningMethodRSA"
    by (auto simp: verified_def split: option.splits)
  moreover from assms obtain alg where "Header t ''alg'' = Some alg" and "alg \<noteq> JNull"
    by (auto simp: verified_def)
  ultimately show ?thesis
    by (simp add: Handler_claims_def Let_def split: option.splits)
qed

lemma example_verified:
  "verified (exampleEnv (exampleClaims (Some (JString ''https://idp.example/'')) sub scope) upstream getErr)
     (bearer ''Bearer e30.e30.sig'')
     (exampleToken (exampleClaims (Some (JString ''https://idp.example/'')) sub scope))"
  by (simp add: verified_def getToken_def GetAudience_def asString_def strings_eval example_eval)

text \<open>
  C5, as amended. For every token that passed the checks before it (decoded, audience,
  validity, RSA, \<open>alg\<close>, issuer): if its \<open>sub\<close> claim is absent or not a string, the
  decision is Deny with an empty principal and the message that the \<open>sub\<close> claim is
  missing; if \<open>sub\<close> is a string and the \<open>scope\<close> claim is absent or not a string, the
  decision is Deny for that principal with the message that the \<open>roles\<close> claim is
  missing. A claim that is the empty string is a string, and is accepted.
\<close>

theorem missing_claim_denied:
  assumes "verified env req t"
  shows "((\<nexists>sub. Claims t ''sub'' = Some (JString sub)) \<longrightarrow>
            Handler env s req =
              Returns ((getDenyResponse [] (MethodArn req)
                 ''Unauthorized: Token missing required 'sub' claim'', None), s))
     \<and> (\<forall>principalId.
           Claims t ''sub'' = Some (JString principalId)
           \<and> (\<nexists>scope. Claims t ''scope'' = Some (JString scope)) \<longrightarrow>
            Handler env s req =
              Returns ((getDenyResponse principalId (MethodArn req)
                 ''Unauthorized: Token missing required 'roles' claim'', None), s))"
proof (intro conjI impI allI)
  assume "\<nexists>sub. Claims t ''sub'' = Some (JString sub)"
  then have "asString (Claims t ''sub'') = None" by (simp add: asString_None_iff)
  then show "Handler env s req =
              Returns ((getDenyResponse [] (MethodArn req)
                 ''Unauthorized: Token missing required 'sub' claim'', None), s)"
    by (simp add: verified_Handler [OF assms] verified_claims [OF assms])
next
  fix principalId
  assume "Claims t ''sub'' = Some (JString principalId)
           \<and> (\<nexists>scope. Claims t ''scope'' = Some (JString scope))"
  then have "asString (Claims t ''sub'') = Some principalId" "asString (Claims t ''scope'') = None"
    by (simp_all add: asString_None_iff asString_Some_iff)
  then show "Handler env s req =
              Returns ((getDenyResponse principalId (MethodArn req)
                 ''Unauthorized: Token missing required 'roles' claim'', None), s)"
    by (simp add: verified_Handler [OF assms] verified_claims [OF assms])
qed

theorem missing_claim_denied_witness:
  "Handler (exampleEnv (exampleClaims (Some (JString ''https://idp.example/'')) None (Some (JString ''openid'')))
              (TransportError ''unreachable'') None)
      emptyState (bearer ''Bearer e30.e30.sig'')
    = Returns ((getDenyResponse [] (MethodArn (bearer ''Bearer e30.e30.sig''))
                 ''Unauthorized: Token missing required 'sub' claim'', None), emptyState)
   \<and> Handler (exampleEnv (exampleClaims (Some (JString ''https://idp.example/''))
                 (Some (JString ''auth0|u1'')) (Some (JArray [JString ''openid''])))
              (TransportError ''unreachable'') None)
      emptyState (bearer ''Bearer e30.e30.sig'')
    = Returns ((getDenyResponse ''auth0|u1'' (MethodArn (bearer ''Bearer e30.e30.sig''))
                 ''Unauthorized: Token missing required 'roles' claim'', None), emptyState)"
  using missing_claim_denied [OF example_verified, of None "Some (JString ''openid'')" _ _ emptyState]
    missing_claim_denied [OF example_verified, of "Some (JString ''auth0|u1'')" "Some (JArray [JString ''openid''])" _ _ emptyState]
  by (simp add: exampleToken_def exampleClaims_def)

text \<open>
  C5 as stated fails: a verified token whose \<open>sub\<close> and \<open>scope\<close> claims are both the
  empty string is allowed, with an empty principal and an empty permission.
\<close>

theorem empty_claims_counterexample:
  "Handler (appEnv [] []) emptyState (bearer ''Bearer e30.e30.sig'')
    = Returns ((getSuccessResponse [] ''arn:aws:execute-api:GET/items''
                 (Map.empty(''requesterId'' \<mapsto> [], ''permissions'' \<mapsto> [])), None), emptyState)"
  by (simp add: handler_eval strings_eval example_eval appEnv_def)

text \<open>
  C6, as amended. For every verified token whose subject is a string without the marker
  \<open>auth0\<close> and whose scope claim is a string, the decision is Allow for that subject,
  with the permissions the scope claim split at every single space character and joined
  with commas; the handler leaves the state as it found it, so it makes no cache lookup,
  no cache write and no upstream call (each of which extends the trace).
\<close>

theorem app_token_allowed:
  assumes "verified env req t"
    and "Claims t ''sub'' = Some (JString principalId)"
    and "\<not> Contains principalId ''auth0''"
    and "Claims t ''scope'' = Some (JString scopes)"
  shows "Handler env s req =
     Returns ((getSuccessResponse principalId (MethodArn req)
                (Map.empty(''requesterId'' \<mapsto> principalId,
                           ''permissions'' \<mapsto> Join (Split scopes (CHR '' '')) '','')), None), s)"
proof -
  have "asString (Claims t ''sub'') = Some principalId" "asString (Claims t ''scope'') = Some scopes"
    using assms(2,4) by (simp_all add: asString_Some_iff)
  then show ?thesis
    using assms(3) by (simp add: verified_Handler [OF assms(1)] verified_claims [OF assms(1)])
qed

theorem app_token_allowed_witness:
  "Handler (appEnv ''svc@clients'' ''read:items write:items'') emptyState (bearer ''Bearer e30.e30.sig'')
    = Returns ((getSuccessResponse ''svc@clients'' (MethodArn (bearer ''Bearer e30.e30.sig''))
                 (Map.empty(''requesterId'' \<mapsto> ''svc@clients'',
                            ''permissions'' \<mapsto> ''read:items,write:items'')), None), emptyState)"
  using app_token_allowed [OF example_verified, of "Some (JString ''svc@clients'')"
      "Some (JString ''read:items write:items'')" "''svc@clients''" "''read:items write:items''"
      "TransportError ''unreachable''" None emptyState]
  by (simp add: exampleToken_def exampleClaims_def appEnv_def)

text \<open>
  C6 as stated fails: a tab is white space, and a scope claim of two names with a tab
  between them stays one permission, where a split on white space gives two.
\<close>

theorem scope_tab_counterexample:
  "Handler (appEnv ''svc@clients'' [CHR ''a'', CHR 0x09, CHR ''b'']) emptyState (bearer ''Bearer e30.e30.sig'')
    = Returns ((getSuccessResponse ''svc@clients'' ''arn:aws:execute-api:GET/items''
                 (Map.empty(''requesterId'' \<mapsto> ''svc@clients'',
                            ''permissions'' \<mapsto> [CHR ''a'', CHR 0x09, CHR ''b''])), None), emptyState)
   \<and> Join (Fields [CHR ''a'', CHR 0x09, CHR ''b'']) '','' = ''a,b''"
  by (simp add: handler_eval strings_eval example_eval appEnv_def)

section \<open>Timestamps written and read back\<close>

lemma monthDay_valid:
  "yday < sum_list ls \<Longrightarrow> monthDay ls yday = (month, day) \<Longrightarrow>
     1 \<le> month \<and> month \<le> length ls \<and> 1 \<le> day \<and> day \<le> ls ! (month - 1)
     \<and> sum_list (take (month - 1) ls) + day = Suc yday"
proof (induction ls arbitrary: yday month day)
  case Nil
  then show ?case by simp
next
  case (Cons l ls)
  show ?case
  proof (cases "yday < l")
    case True
    with Cons.prems show ?thesis by auto
  next
    case False
    obtain m dd where md: "monthDay ls (yday - l) = (m, dd)" by (cases "monthDay ls (yday - l)")
    from False Cons.prems(1) have "yday - l < sum_list ls" by simp
    from Cons.IH [OF this md] False Cons.prems(2) md show ?thesis
      by (auto simp: Let_def nth_Cons' take_Cons')
  qed
qed

lemma divide_cycle:
  fixes a :: int
  assumes "0 \<le> a" and "a \<le> 4 * c" and "0 < c"
  defines "n \<equiv> min 3 (a div c)"
  shows "0 \<le> n" and "n \<le> 3" and "0 \<le> a - c * n" and "a - c * n \<le> c"
    and "a - c * n = c \<longrightarrow> n = 3 \<and> a = 4 * c"
    and "a - c * n < c \<longrightarrow> a - c * n = a mod c"
proof -
  define q r where "q = a div c" and "r = a mod c"
  have eq: "a = c * q + r" by (simp add: q_def r_def)
  have r: "0 \<le> r" "r < c" using assms(3) by (simp_all add: r_def)
  have q0: "0 \<le> q" using assms(1,3) by (simp add: q_def pos_imp_zdiv_nonneg_iff)
  have "c * q \<le> 4 * c" using eq r assms(2) by linarith
  then have q4: "q \<le> 4" using assms(3) by (simp add: mult.commute)
  have n: "n = min 3 q" by (simp add: n_def q_def)
  show "0 \<le> n" "n \<le> 3" using q0 by (simp_all add: n)
  consider "q = 0" | "q = 1" | "q = 2" | "q = 3" | "q = 4" using q0 q4 by linarith
  then have main: "0 \<le> a - c * n \<and> a - c * n \<le> c
      \<and> (a - c * n = c \<longrightarrow> n = 3 \<and> a = 4 * c) \<and> (a - c * n < c \<longrightarrow> a - c * n = r)"
    using eq r assms(2) by cases (simp_all add: n)
  then show "0 \<le> a - c * n" "a - c * n \<le> c" "a - c * n = c \<longrightarrow> n = 3 \<and> a = 4 * c"
    "a - c * n < c \<longrightarrow> a - c * n = a mod c"
    by (simp_all add: r_def)
qed

lemma yday_valid:
  fixes d :: int
  defines "d400 \<equiv> d mod 146097"
  defines "n100 \<equiv> min 3 (d400 div 36524)"
  defines "d100 \<equiv> d400 - 36524 * n100"
  defines "n4 \<equiv> d100 div 1461"
  defines "d4 \<equiv> d100 mod 1461"
  defines "n1 \<equiv> min 3 (d4 div 365)"
  defines "yday \<equiv> d4 - 365 * n1"
  defines "year \<equiv> 1 + 400 * (d div 146097) + 100 * n100 + 4 * n4 + n1"
  shows "0 \<le> yday \<and> (yday < 365 \<or> yday = 365 \<and> isLeap year)"
    and "0 \<le> n100 \<and> n100 \<le> 3 \<and> 0 \<le> n4 \<and> n4 \<le> 24 \<and> 0 \<le> n1 \<and> n1 \<le> 3"
    and "d = 146097 * (d div 146097) + 36524 * n100 + 1461 * n4 + 365 * n1 + yday"
proof -
  have a: "0 \<le> d400" "d400 \<le> 4 * 36524" by (simp_all add: d400_def) 
  note c100 = divide_cycle [OF a, folded n100_def d100_def]
  have n100: "0 \<le> n100" "n100 \<le> 3" and d100: "0 \<le> d100" "d100 \<le> 36524"
    and d100': "d100 = 36524 \<longrightarrow> n100 = 3"
    using c100 unfolding d100_def by simp_all
  have eq4: "d100 = 1461 * n4 + d4" by (simp add: n4_def d4_def)
  have d4: "0 \<le> d4" "d4 \<le> 4 * 365" by (simp_all add: d4_def)
  have n4: "0 \<le> n4" using d100 by (simp add: n4_def pos_imp_zdiv_nonneg_iff)
  have "1461 * n4 \<le> 36524" using eq4 d4 d100 by linarith
  then have n4': "n4 \<le> 24" by linarith
  note c1 = divide_cycle [OF d4, folded n1_def yday_def]
  have n1: "0 \<le> n1" "n1 \<le> 3" and y: "0 \<le> yday" "yday \<le> 365"
    and y': "yday = 365 \<longrightarrow> n1 = 3 \<and> d4 = 1460"
    using c1 unfolding yday_def by simp_all
  have leap: "isLeap year" if "yday = 365"
  proof -
    from that y' have 1: "n1 = 3" "d4 = 1460" by simp_all
    show ?thesis
    proof (cases "n4 = 24")
      case True
      with eq4 1 have "d100 = 36524" by simp
      with d100' have "n100 = 3" by simp
      with True 1 have "year = 400 * (d div 146097 + 1)" by (simp add: year_def)
      then show ?thesis by (simp add: isLeap_def)
    next
      case False
      with n4 n4' have lt: "0 < 4 * n4 + 4" "4 * n4 + 4 < 100" by linarith+
      have y4: "year = 4 * (100 * (d div 146097) + 25 * n100 + n4 + 1)" by (simp add: year_def 1)
      have "year = (4 * n4 + 4) + (4 * (d div 146097) + n100) * 100" by (simp add: year_def 1)
      then have "year mod 100 = (4 * n4 + 4) mod 100" by (metis mod_mult_self1)
      also have "\<dots> = 4 * n4 + 4" using lt by simp
      finally have "year mod 100 \<noteq> 0" using lt by simp
      moreover have "year mod 4 = 0" by (simp add: y4)
      ultimately show ?thesis by (simp add: isLeap_def)
    qed
  qed
  show "0 \<le> yday \<and> (yday < 365 \<or> yday = 365 \<and> isLeap year)"
    using y leap by force
  show "0 \<le> n100 \<and> n100 \<le> 3 \<and> 0 \<le> n4 \<and> n4 \<le> 24 \<and> 0 \<le> n1 \<and> n1 \<le> 3"
    using n100 n4 n4' n1 by simp
  have "d = 146097 * (d div 146097) + d400" by (simp add: d400_def)
  then show "d = 146097 * (d div 146097) + 36524 * n100 + 1461 * n4 + 365 * n1 + yday"
    using eq4 unfolding yday_def d100_def by linarith
qed


lemma Format_timestampLayout:
  "Format t timestampLayout =
     appendInt (Year t) 4 @ ''-'' @ appendInt (int (fst (snd (Date t)))) 2 @ ''-''
       @ appendInt (int (snd (snd (Date t)))) 2 @ ''T''
       @ appendInt (int (fst (Clock t))) 2 @ '':'' @ appendInt (int (fst (snd (Clock t)))) 2 @ '':''
       @ appendInt (int (snd (snd (Clock t)))) 2 @ ''.'' @ take 7 (appendInt (int (Nanosecond t)) 9) @ ''Z''"
  by (simp add: Format_def timestampLayout_def isDigit_def eval_nat_numeral)


lemma digit_below_ten:
  assumes "k < (10::nat)"
  shows "isDigit (''0123456789'' ! k) \<and> digitVal (''0123456789'' ! k) = k"
proof -
  from assms have "k = 0 \<or> k = 1 \<or> k = 2 \<or> k = 3 \<or> k = 4
    \<or> k = 5 \<or> k = 6 \<or> k = 7 \<or> k = 8 \<or> k = 9"
    by arith
  then show ?thesis
    by (elim disjE) (simp_all add: isDigit_def digitVal_def)
qed

lemma digit_props:
  "isDigit (''0123456789'' ! (n mod 10))"
  "digitVal (''0123456789'' ! (n mod 10)) = n mod 10"
  using digit_below_ten [of "n mod 10"] by simp_all

lemma digitsW_zero: "digitsW w 0 = replicate w (CHR ''0'')"
  by (induction w) (simp_all add: replicate_append_same)

lemma length_digitsW: "length (digitsW w n) = w"
  by (induction w arbitrary: n) simp_all

lemma Itoa_digitsW:
  "n < 10 ^ w \<Longrightarrow> 0 < w \<Longrightarrow> replicate (w - length (Itoa n)) (CHR ''0'') @ Itoa n = digitsW w n"
proof (induction w arbitrary: n)
  case 0
  then show ?case by simp
next
  case (Suc w)
  show ?case
  proof (cases "n < 10")
    case True
    then have "Itoa n = [''0123456789'' ! n]" by (simp add: Itoa.simps)
    with True show ?thesis by (simp add: digitsW_zero)
  next
    case False
    then have I: "Itoa n = Itoa (n div 10) @ [''0123456789'' ! (n mod 10)]"
      by (subst Itoa.simps) simp
    from False Suc.prems have w: "0 < w" by (cases w) auto
    from Suc.prems have "n div 10 < 10 ^ w" by (simp add: less_mult_imp_div_less mult.commute)
    from Suc.IH [OF this w] show ?thesis by (simp add: I)
  qed
qed

lemma appendInt_digitsW:
  "0 \<le> x \<Longrightarrow> nat x < 10 ^ w \<Longrightarrow> 0 < w \<Longrightarrow> appendInt x w = digitsW w (nat x)"
  using Itoa_digitsW [of "nat x" w] by (simp add: appendInt_def)


lemma digits_digitsW: "list_all isDigit (digitsW w n)"
  by (induction w arbitrary: n) (simp_all add: digit_props)

lemma decimal_snoc: "decimal (s @ [c]) = 10 * decimal s + digitVal c"
  by (simp add: decimal_def)

lemma decimal_digitsW: "decimal (digitsW w n) = n mod 10 ^ w"
proof (induction w arbitrary: n)
  case 0
  then show ?case by (simp add: decimal_def)
next
  case (Suc w)
  have "n mod (10 * 10 ^ w) = 10 * (n div 10 mod 10 ^ w) + n mod 10"
    by (simp add: mod_mult2_eq)
  then show ?case by (simp add: decimal_snoc Suc.IH digit_props)
qed

lemma take_digitsW: "take w (digitsW (Suc (Suc w)) n) = digitsW w (n div 100)"
proof -
  have "n div 10 div 10 = n div 100" by (simp add: div_mult2_eq [symmetric])
  then show ?thesis by (simp add: length_digitsW)
qed

lemma getnum_digitsW: "getnum (digitsW 2 n @ rest) fixed = Some (n mod 100, rest)"
proof -
  have "(n div 10 mod 10) * 10 + n mod 10 = n mod 100"
    using mod_mult2_eq [of n 10 10] by simp
  moreover have "digitsW 2 n = [''0123456789'' ! (n div 10 mod 10), ''0123456789'' ! (n mod 10)]"
    by (simp add: numeral_2_eq_2)
  ultimately show ?thesis
    by (simp add: getnum_def digit_props)
qed

lemma parseYear_digitsW: "parseYear (digitsW 4 n @ rest) = Some (n mod 10000, rest)"
  using decimal_digitsW [of 4 n] digits_digitsW [of 4 n]
  by (simp add: parseYear_def length_digitsW)

lemma parseNanoseconds_digits:
  assumes "ds \<noteq> []" and "list_all isDigit ds" and "\<not> isDigit z"
  shows "parseNanoseconds (CHR ''.'' # ds @ z # rest)
     = (decimal (take 9 ds) * 10 ^ (9 - length (take 9 ds)), z # rest)"
proof -
  obtain d ds' where ds: "ds = d # ds'" using assms(1) by (cases ds) auto
  have 1: "takeWhile isDigit (ds @ z # rest) = ds"
    using assms(2,3) by (induction ds) simp_all
  have 2: "dropWhile isDigit (ds @ z # rest) = z # rest"
    using assms(2,3) by (induction ds) simp_all
  have "isDigit d" using assms(2) ds by simp
  with 1 2 show ?thesis
    unfolding parseNanoseconds_def ds by (simp add: Let_def)
qed

lemma parseZone_Z: "parseZone (CHR ''Z'' # rest) = Some (0, rest)"
  by (simp add: parseZone_def)

lemma skip_head: "skip (c # rest) c = Some rest"
  by (simp add: skip_def)


lemma daysSinceEpoch_cycles:
  assumes "0 \<le> b" "b \<le> 3" "0 \<le> c" "c \<le> 24" "0 \<le> e" "e \<le> 3"
  shows "daysSinceEpoch (1 + 400 * a + 100 * b + 4 * c + e)
     = 146097 * a + 36524 * b + 1461 * c + 365 * e - 719162"
proof -
  define y where "y = 400 * a + 100 * b + 4 * c + e"
  have 1: "y div 400 = a" "y mod 400 = 100 * b + 4 * c + e"
    using assms by (auto simp: y_def intro!: int_div_pos_eq int_mod_pos_eq)
  have 2: "(100 * b + 4 * c + e) div 100 = b" "(100 * b + 4 * c + e) mod 100 = 4 * c + e"
    using assms by (auto intro!: int_div_pos_eq int_mod_pos_eq)
  have 3: "(4 * c + e) div 4 = c" "(4 * c + e) mod 4 = e"
    using assms by (auto intro!: int_div_pos_eq int_mod_pos_eq)
  have eq: "1 + 400 * a + 100 * b + 4 * c + e - 1 = y" by (simp add: y_def)
  show ?thesis
    unfolding daysSinceEpoch_def Let_def eq 1 2 3 by simp
qed

lemma sum_monthLengths: "sum_list (monthLengths year) = (if isLeap year then 366 else 365)"
  by (simp add: monthLengths_def)

lemma length_monthLengths: "length (monthLengths year) = 12"
  by (simp add: monthLengths_def)

lemma monthLengths_le: "l \<in> set (monthLengths year) \<Longrightarrow> l \<le> 31"
  by (auto simp: monthLengths_def)

lemma Date_valid:
  assumes "Date t = (year, month, day)"
  shows "1 \<le> month" "month \<le> 12" "1 \<le> day" "day \<le> daysIn month year" "day \<le> 31"
    and "daysSinceEpoch year + int (sum_list (take (month - 1) (monthLengths year))) + int day - 1
           = (t div 1000000000) div 86400"
proof -
  define d where "d = (t div 1000000000) div 86400 + 719162"
  define n100 where "n100 = min 3 (d mod 146097 div 36524)"
  define n4 where "n4 = (d mod 146097 - 36524 * n100) div 1461"
  define n1 where "n1 = min 3 ((d mod 146097 - 36524 * n100) mod 1461 div 365)"
  define yday where "yday = (d mod 146097 - 36524 * n100) mod 1461 - 365 * n1"
  note v = yday_valid [of d, folded n100_def, folded n4_def, folded n1_def, folded yday_def]
  have year: "year = 1 + 400 * (d div 146097) + 100 * n100 + 4 * n4 + n1"
    and md: "monthDay (monthLengths year) (nat yday) = (month, day)"
    using assms unfolding Date_def Let_def d_def [symmetric] n100_def [symmetric]
      n4_def [symmetric] n1_def [symmetric] yday_def [symmetric]
    by (auto split: prod.splits)
  from v(1) have "nat yday < sum_list (monthLengths year)"
    unfolding year [symmetric] by (auto simp: sum_monthLengths)
  note m = monthDay_valid [OF this md]
  from m show "1 \<le> month" "1 \<le> day" by simp_all
  from m show "month \<le> 12" by (simp add: length_monthLengths)
  from m show "day \<le> daysIn month year" by (simp add: daysIn_def)
  have "month - 1 < length (monthLengths year)" using m by linarith
  then have "monthLengths year ! (month - 1) \<in> set (monthLengths year)"
    by (rule nth_mem)
  with m monthLengths_le show "day \<le> 31" by fastforce
  have "daysSinceEpoch year = 146097 * (d div 146097) + 36524 * n100 + 1461 * n4 + 365 * n1 - 719162"
    unfolding year using v(2) by (intro daysSinceEpoch_cycles) simp_all
  moreover have "int (sum_list (take (month - 1) (monthLengths year))) + int day = 1 + yday"
    using m v(1) by (simp flip: of_nat_add)
  ultimately show "daysSinceEpoch year + int (sum_list (take (month - 1) (monthLengths year))) + int day - 1
           = (t div 1000000000) div 86400"
    using v(3) by (simp add: d_def)
qed

lemma Clock_valid:
  assumes "Clock t = (hour, minute, sec)"
  shows "hour < 24" "minute < 60" "sec < 60"
    and "int (hour * 3600 + minute * 60 + sec) = (t div 1000000000) mod 86400"
proof -
  define s where "s = nat ((t div 1000000000) mod 86400)"
  have s: "s < 86400" "int s = (t div 1000000000) mod 86400" by (simp_all add: s_def)
  have c: "hour = s div 3600" "minute = s mod 3600 div 60" "sec = s mod 60"
    using assms by (simp_all add: Clock_def s_def Let_def)
  show "hour < 24" "minute < 60" "sec < 60" using s(1) by (simp_all add: c less_mult_imp_div_less)
  have "s mod 3600 mod 60 = s mod 60" by (simp add: mod_mod_cancel)
  then have "s = hour * 3600 + minute * 60 + sec"
    unfolding c by (metis add.assoc div_mult_mod_eq)
  then show "int (hour * 3600 + minute * 60 + sec) = (t div 1000000000) mod 86400"
    using s(2) by simp
qed


lemma truncate_instant:
  fixes t :: int
  shows "(t div 1000000000 div 86400 * 86400 + t div 1000000000 mod 86400) * 1000000000
           + int (nat (t mod 1000000000) div 100 * 100) = t - t mod 100"
proof -
  have 1: "t div 1000000000 div 86400 * 86400 + t div 1000000000 mod 86400 = t div 1000000000"
    by simp
  have "int (nat (t mod 1000000000) div 100 * 100) = (t mod 1000000000) div 100 * 100"
    by (simp add: zdiv_int)
  also have "\<dots> = t mod 1000000000 - (t mod 1000000000) mod 100"
    by (simp add: minus_mod_eq_div_mult)
  also have "(t mod 1000000000) mod 100 = t mod 100"
    by (simp add: mod_mod_cancel)
  finally have 2: "int (nat (t mod 1000000000) div 100 * 100) = t mod 1000000000 - t mod 100" .
  have "t div 1000000000 * 1000000000 + t mod 1000000000 = t" by simp
  then show ?thesis unfolding 1 2 by linarith
qed

lemma Parse_Format:
  assumes "0 \<le> Year t" and "Year t \<le> 9999"
  shows "Parse_RFC3339 (Format t timestampLayout) = Some (t - t mod 100)"
proof -
  obtain year month day where d: "Date t = (year, month, day)" by (cases "Date t") auto
  obtain hour minute sec where c: "Clock t = (hour, minute, sec)" by (cases "Clock t") auto
  define f where "f = Nanosecond t div 100"
  note dv = Date_valid [OF d] and cv = Clock_valid [OF c]
  have year: "Year t = year" by (simp add: Year_def d)
  with assms have y: "0 \<le> year" "nat year < 10000" by simp_all
  have ns: "Nanosecond t < 1000000000" by (simp add: Nanosecond_def)
  then have f: "f < 10000000" by (simp add: f_def)
  have Y: "appendInt (Year t) 4 = digitsW 4 (nat year)"
    using y by (simp add: year appendInt_digitsW)
  have M: "appendInt (int month) 2 = digitsW 2 month" "appendInt (int day) 2 = digitsW 2 day"
    "appendInt (int hour) 2 = digitsW 2 hour" "appendInt (int minute) 2 = digitsW 2 minute"
    "appendInt (int sec) 2 = digitsW 2 sec"
    using dv(2,5) cv(1,2,3) by (simp_all add: appendInt_digitsW)
  have "appendInt (int (Nanosecond t)) 9 = digitsW (Suc (Suc 7)) (Nanosecond t)"
    using ns by (simp add: appendInt_digitsW)
  then have F: "take 7 (appendInt (int (Nanosecond t)) 9) = digitsW 7 f"
    by (simp only: take_digitsW f_def)
  have S: "Format t timestampLayout =
      digitsW 4 (nat year) @ CHR ''-'' # digitsW 2 month @ CHR ''-'' # digitsW 2 day @ CHR ''T'' #
      digitsW 2 hour @ CHR '':'' # digitsW 2 minute @ CHR '':'' # digitsW 2 sec @
      CHR ''.'' # digitsW 7 f @ CHR ''Z'' # []"
    by (simp add: Format_timestampLayout d c Y M F)
  have "digitsW 7 f \<noteq> []" using length_digitsW [of 7 f] by auto
  from parseNanoseconds_digits [OF this digits_digitsW, of "CHR ''Z''" "[]"]
  have N: "parseNanoseconds (CHR ''.'' # digitsW 7 f @ CHR ''Z'' # []) = (f * 100, CHR ''Z'' # [])"
    using f by (simp add: isDigit_def length_digitsW decimal_digitsW)
  have vals: "nat year mod 10000 = nat year" "month mod 100 = month" "day mod 100 = day"
    "hour mod 100 = hour" "minute mod 100 = minute" "sec mod 100 = sec"
    using y dv(2,5) cv(1,2,3) by simp_all
  have P: "Parse_RFC3339 (Format t timestampLayout)
      = Some (time_Date year month day hour minute sec (f * 100))"
    unfolding S Parse_RFC3339_def
    using y(1) dv(1,2,3,4) cv(1,2,3)
    by (simp add: parseYear_digitsW skip_head getnum_digitsW N parseZone_Z vals)
  have "time_Date year month day hour minute sec (f * 100) = t - t mod 100"
    unfolding time_Date_def dv(6) cv(4) f_def Nanosecond_def by (rule truncate_instant)
  with P show ?thesis by simp
qed

text \<open>The steps of \<open>Date\<close>, for the evaluation at a given instant.\<close>

lemma Date_steps:
  assumes "d = (t div 1000000000) div 86400 + 719162"
    and "n400 = d div 146097" and "d400 = d mod 146097"
    and "n100 = min 3 (d400 div 36524)" and "d100 = d400 - 36524 * n100"
    and "n4 = d100 div 1461" and "d4 = d100 mod 1461"
    and "n1 = min 3 (d4 div 365)" and "yday = d4 - 365 * n1"
    and "year = 1 + 400 * n400 + 100 * n100 + 4 * n4 + n1"
    and "monthDay (monthLengths year) (nat yday) = (month, day)"
  shows "Date t = (year, month, day)"
  unfolding Date_def Let_def assms(1) [symmetric] assms(2) [symmetric] assms(3) [symmetric]
    assms(4) [symmetric] assms(5) [symmetric] assms(6) [symmetric] assms(7) [symmetric]
    assms(8) [symmetric] assms(9) [symmetric] assms(10) [symmetric] assms(11)
  by simp

lemma Date_2024: "Date 1704164645123456789 = (2024, 1, 2)"
  by (rule Date_steps [of 738886 _ 5 8401 0 8401 5 1096 3 1])
    (simp_all add: monthLengths_def isLeap_def)

lemma Date_12000: "Date 316516204800000000000 = (12000, 1, 1)"
  by (rule Date_steps [of 4382544 _ 29 145731 3 36159 24 1095 3 0])
    (simp_all add: monthLengths_def isLeap_def)

lemma replicate_numeral_unfold: "replicate (numeral k) x = x # replicate (pred_numeral k) x"
  by (simp add: numeral_eq_Suc)

lemma Format_12000:
  "Format 316516204800000000000 timestampLayout = ''12000-01-01T00:00:00.0000000Z''"
  by (simp add: Format_timestampLayout Date_12000 Year_def Clock_def Nanosecond_def appendInt_def
      Itoa.simps replicate_numeral_unfold)

lemma Parse_12000: "Parse_RFC3339 ''12000-01-01T00:00:00.0000000Z'' = None"
  by (simp add: Parse_RFC3339_def parseYear_def skip_def isDigit_def)

section \<open>The cache tiers\<close>

lemma TryPut_state:
  "cacheMap (snd (TryPut env authId val s)) = (cacheMap s)(authId \<mapsto> val)"
  "reads (snd (TryPut env authId val s)) = reads s"
  "PutItem \<lparr>PK = authId, SK = authId, PermissionsAttr = Permissions val,
            ExpirationAttr = Format (Expiration val) timestampLayout\<rparr>
     \<in> set (trace (snd (TryPut env authId val s)))"
  "putItemErr env = None \<Longrightarrow>
     table (snd (TryPut env authId val s)) (authId, authId) =
       Some \<lparr>PK = authId, SK = authId, PermissionsAttr = Permissions val,
             ExpirationAttr = Format (Expiration val) timestampLayout\<rparr>"
  by (simp_all add: TryPut_def log_def Let_def split: option.splits)

lemma TryGet_ephemeral:
  assumes "cacheMap s authId = Some val" and "clock env (reads s) < Expiration val"
  shows "TryGet env authId s =
     ((Some val, None), s\<lparr>reads := Suc (reads s), trace := trace s @ [CacheMapRead authId]\<rparr>)"
  using assms by (simp add: TryGet_def log_def time_Now_def)

text \<open>Without a fresh entry in the ephemeral tier, the item of the table decides.\<close>

lemma TryGet_durable:
  assumes "\<forall>v. cacheMap s authId = Some v \<longrightarrow> \<not> clock env (reads s) < Expiration v"
    and "getItemErr env = None"
    and "table s (authId, authId) = Some item"
  shows "fst (TryGet env authId s) =
     (case Parse_RFC3339 (ExpirationAttr item) of
        None \<Rightarrow> (None, Some (''unable to parse response: '' @ parseError (ExpirationAttr item)))
      | Some t \<Rightarrow> (Some \<lparr>Permissions = PermissionsAttr item, Expiration = t\<rparr>, None))"
proof (cases "cacheMap s authId")
  case None
  with assms(2,3) show ?thesis
    by (simp add: TryGet_def log_def time_Now_def split: option.splits)
next
  case (Some v)
  with assms(1) have "\<not> clock env (reads s) < Expiration v" by simp
  with Some assms(2,3) show ?thesis
    by (simp add: TryGet_def log_def time_Now_def split: option.splits)
qed

text \<open>
  C8, as amended. A value put with \<open>TryPut\<close> is read back with the same permissions.
  In the writing process, \<open>TryGet\<close> before the expiration returns the value itself, from
  the ephemeral tier. From the durable store (the table took the write and answers the
  read, and the ephemeral tier of the reader has no fresh entry for the subject),
  \<open>TryGet\<close> returns the same permissions for every value whose expiration is in the
  years 0 to 9999 of UTC, with the expiration cut to a multiple of 100 nanoseconds, which
  is what the seven digits of the layout keep.
\<close>

theorem TryPut_TryGet_roundtrip:
  "(clock env' (reads s) < Expiration val \<longrightarrow>
      fst (TryGet env' authId (snd (TryPut env authId val s))) = (Some val, None))
   \<and> (0 \<le> Year (Expiration val) \<and> Year (Expiration val) \<le> 9999
       \<and> putItemErr env = None \<and> getItemErr env' = None
       \<and> table s' = table (snd (TryPut env authId val s))
       \<and> (\<forall>v. cacheMap s' authId = Some v \<longrightarrow> \<not> clock env' (reads s') < Expiration v) \<longrightarrow>
      fst (TryGet env' authId s') =
        (Some \<lparr>Permissions = Permissions val,
               Expiration = Expiration val - Expiration val mod 100\<rparr>, None))"
proof (intro conjI impI)
  assume "clock env' (reads s) < Expiration val"
  then show "fst (TryGet env' authId (snd (TryPut env authId val s))) = (Some val, None)"
    by (simp add: TryGet_ephemeral TryPut_state)
next
  assume a: "0 \<le> Year (Expiration val) \<and> Year (Expiration val) \<le> 9999
       \<and> putItemErr env = None \<and> getItemErr env' = None
       \<and> table s' = table (snd (TryPut env authId val s))
       \<and> (\<forall>v. cacheMap s' authId = Some v \<longrightarrow> \<not> clock env' (reads s') < Expiration v)"
  then have item: "table s' (authId, authId) =
       Some \<lparr>PK = authId, SK = authId, PermissionsAttr = Permissions val,
             ExpirationAttr = Format (Expiration val) timestampLayout\<rparr>"
    by (simp add: TryPut_state)
  from a have "Parse_RFC3339 (Format (Expiration val) timestampLayout)
      = Some (Expiration val - Expiration val mod 100)"
    by (simp add: Parse_Format)
  moreover from a have stale: "\<forall>v. cacheMap s' authId = Some v \<longrightarrow> \<not> clock env' (reads s') < Expiration v"
    and get: "getItemErr env' = None" by simp_all
  note TryGet_durable [OF stale get item]
  ultimately show "fst (TryGet env' authId s') =
        (Some \<lparr>Permissions = Permissions val,
               Expiration = Expiration val - Expiration val mod 100\<rparr>, None)"
    by simp
qed

theorem TryPut_TryGet_roundtrip_witness:
  "fst (TryGet (userEnv (TransportError ''unreachable'') None) ''auth0|u1''
         (snd (TryPut (userEnv (TransportError ''unreachable'') None) ''auth0|u1''
                 \<lparr>Permissions = [''read:items'', ''write:items''], Expiration = 1704164645123456789\<rparr>
                 emptyState)))
     = (Some \<lparr>Permissions = [''read:items'', ''write:items''], Expiration = 1704164645123456789\<rparr>, None)
   \<and> fst (TryGet (userEnv (TransportError ''unreachable'') None) ''auth0|u1''
         ((snd (TryPut (userEnv (TransportError ''unreachable'') None) ''auth0|u1''
                 \<lparr>Permissions = [''read:items'', ''write:items''], Expiration = 1704164645123456789\<rparr>
                 emptyState))
            \<lparr>cacheMap := Map.empty\<rparr>))
     = (Some \<lparr>Permissions = [''read:items'', ''write:items''], Expiration = 1704164645123456700\<rparr>, None)"
proof -
  let ?E = "userEnv (TransportError ''unreachable'') None"
  let ?v = "\<lparr>Permissions = [''read:items'', ''write:items''], Expiration = 1704164645123456789\<rparr>"
  let ?s' = "(snd (TryPut ?E ''auth0|u1'' ?v emptyState))\<lparr>cacheMap := Map.empty\<rparr>"
  have h1: "clock ?E (reads emptyState) < Expiration ?v" by (simp add: example_eval userEnv_def)
  have h2: "0 \<le> Year (Expiration ?v) \<and> Year (Expiration ?v) \<le> 9999
       \<and> putItemErr ?E = None \<and> getItemErr ?E = None
       \<and> table ?s' = table (snd (TryPut ?E ''auth0|u1'' ?v emptyState))
       \<and> (\<forall>v. cacheMap ?s' ''auth0|u1'' = Some v \<longrightarrow> \<not> clock ?E (reads ?s') < Expiration v)"
    by (simp add: example_eval userEnv_def Year_def Date_2024)
  from TryPut_TryGet_roundtrip [of "?E" emptyState "?v" "''auth0|u1''" "?E" "?s'"] h1 h2
  show ?thesis by simp
qed

text \<open>
  C8 as stated fails: an expiration in the year 12000 is written with five digits of
  year, which the decoder does not read. The table has the record, and \<open>TryGet\<close> in a
  process without the entry in its ephemeral tier returns no value and an error.
\<close>

theorem roundtrip_year_12000_counterexample:
  "table (snd (TryPut (userEnv (TransportError ''unreachable'') None) ''auth0|u1''
                 \<lparr>Permissions = [''read:items''], Expiration = 316516204800000000000\<rparr> emptyState))
         (''auth0|u1'', ''auth0|u1'')
     = Some \<lparr>PK = ''auth0|u1'', SK = ''auth0|u1'', PermissionsAttr = [''read:items''],
             ExpirationAttr = ''12000-01-01T00:00:00.0000000Z''\<rparr>
   \<and> fst (fst (TryGet (userEnv (TransportError ''unreachable'') None) ''auth0|u1''
         ((snd (TryPut (userEnv (TransportError ''unreachable'') None) ''auth0|u1''
                 \<lparr>Permissions = [''read:items''], Expiration = 316516204800000000000\<rparr> emptyState))
            \<lparr>cacheMap := Map.empty\<rparr>))) = None
   \<and> snd (fst (TryGet (userEnv (TransportError ''unreachable'') None) ''auth0|u1''
         ((snd (TryPut (userEnv (TransportError ''unreachable'') None) ''auth0|u1''
                 \<lparr>Permissions = [''read:items''], Expiration = 316516204800000000000\<rparr> emptyState))
            \<lparr>cacheMap := Map.empty\<rparr>))) \<noteq> None"
proof -
  let ?E = "userEnv (TransportError ''unreachable'') None"
  let ?v = "\<lparr>Permissions = [''read:items''], Expiration = 316516204800000000000\<rparr>"
  let ?item = "\<lparr>PK = ''auth0|u1'', SK = ''auth0|u1'', PermissionsAttr = [''read:items''],
             ExpirationAttr = ''12000-01-01T00:00:00.0000000Z''\<rparr>"
  let ?s' = "(snd (TryPut ?E ''auth0|u1'' ?v emptyState))\<lparr>cacheMap := Map.empty\<rparr>"
  have put: "putItemErr ?E = None" and get: "getItemErr ?E = None"
    by (simp_all add: example_eval userEnv_def)
  have item: "table (snd (TryPut ?E ''auth0|u1'' ?v emptyState)) (''auth0|u1'', ''auth0|u1'') = Some ?item"
    using TryPut_state(4) [OF put, of "''auth0|u1''" ?v emptyState] by (simp add: Format_12000)
  then have item': "table ?s' (''auth0|u1'', ''auth0|u1'') = Some ?item" by simp
  have stale: "\<forall>v. cacheMap ?s' ''auth0|u1'' = Some v \<longrightarrow> \<not> clock ?E (reads ?s') < Expiration v"
    by simp
  from TryGet_durable [OF stale get item']
  have "fst (TryGet ?E ''auth0|u1'' ?s')
      = (None, Some (''unable to parse response: '' @ parseError ''12000-01-01T00:00:00.0000000Z''))"
    by (simp add: Parse_12000)
  with item show ?thesis by simp
qed

section \<open>User-type resolution\<close>

lemma fresh_reads:
  "reads s = reads s' \<Longrightarrow> fst (fresh env ac s) = fst (fresh env ac s')
     \<and> reads (snd (fresh env ac s)) = reads (snd (fresh env ac s'))"
  by (simp add: fresh_def time_Now_def split: option.splits)

lemma fetchPermissions_result: "fst (fetchPermissions env p s) = requestPermissions env p"
  by (simp add: fetchPermissions_def Let_def split: sum.splits prod.splits)

text \<open>A request that was answered was sent.\<close>

lemma request_answered:
  assumes "requestPermissions env p = Inr perms"
  shows "\<exists>ps. httpDo env (Issuer (Config env) @ ''api/v2/users/'' @ p @ ''/permissions'')
                 (''Bearer '' @ cachedToken env) = Response 200 (Decoded ps)"
  using assms
  by (auto simp: requestPermissions_def Let_def split: httpResult.splits if_splits body.splits)

text \<open>
  What a resolution returns is decided by the value of the first lookup, the clock and
  the answer of the permissions endpoint.
\<close>

lemma resolveWith_result:
  "fst (resolveWith env p ac s) =
     (if fst (fresh env ac s) \<or> fst (fresh env ac (snd (fresh env ac s))) then (joined ac, None)
      else case requestPermissions env p of
             Inr perms \<Rightarrow> (Join perms '','', None) | Inl err \<Rightarrow> ([], Some err))"
  by (simp add: resolveWith_def Let_def case_prod_beta fetchPermissions_result split: sum.splits)

lemma resolveWith_miss:
  "fst (resolveWith env principalId None s) =
     (case requestPermissions env principalId of
        Inl err \<Rightarrow> ([], Some err) | Inr perms \<Rightarrow> (Join perms '','', None))"
  by (simp add: resolveWith_result fresh_def split: sum.splits)

text \<open>
  Whatever other invocations write into the two tiers after the lookup of line 278, the
  resolution returns what it returns without them.
\<close>

lemma recheck_independent:
  "fst (getUserPermissions_among (\<lambda>st. st\<lparr>cacheMap := m, table := tb\<rparr>) env p s)
     = fst (getUserPermissions env p s)"
proof -
  obtain r s1 where g: "TryGet env p s = (r, s1)" by (cases "TryGet env p s")
  obtain ac e where r: "r = (ac, e)" by (cases r)
  have 1: "reads (s1\<lparr>cacheMap := m, table := tb\<rparr>) = reads s1" by simp
  note a = fresh_reads [OF 1, of env ac]
  note b = fresh_reads [OF conjunct2 [OF a], of env ac]
  show ?thesis
    by (simp add: getUserPermissions_def getUserPermissions_among_def g r resolveWith_result a b)
qed

text \<open>
  C3. The claim: after the fetch is dispatched the resolver looks the subject up again,
  and returns a fresh entry that a concurrent resolution wrote since the first lookup,
  without waiting for the fetch. The code tests the local variable of the first lookup
  again and reads no cache: with both tiers empty at the first lookup, a fresh entry put
  by a concurrent resolution before the second test (a lookup at that point returns it),
  and a permissions endpoint that answers 500, the resolution waits for the fetch and
  fails with its error.
\<close>

theorem recheck_reads_no_cache:
  "fst (TryGet (userEnv (Response 500 (Decoded [])) None) ''auth0|u1''
         (concurrentPut (userEnv (Response 500 (Decoded [])) None) ''auth0|u1''
            \<lparr>Permissions = [''read:items''], Expiration = 900000000000\<rparr>
            (snd (TryGet (userEnv (Response 500 (Decoded [])) None) ''auth0|u1'' emptyState))))
     = (Some \<lparr>Permissions = [''read:items''], Expiration = 900000000000\<rparr>, None)
   \<and> fst (getUserPermissions_among
           (concurrentPut (userEnv (Response 500 (Decoded [])) None) ''auth0|u1''
              \<lparr>Permissions = [''read:items''], Expiration = 900000000000\<rparr>)
           (userEnv (Response 500 (Decoded [])) None) ''auth0|u1'' emptyState)
     = ([], Some ''error retrieving user permissions: 500'')"
  by (simp add: resolver_eval concurrentPut_def example_eval userEnv_def Let_def Itoa.simps)

lemma TryGet_store_error:
  assumes "getItemErr env = Some e"
    and "\<forall>val. cacheMap s principalId = Some val \<longrightarrow> \<not> clock env (reads s) < Expiration val"
  shows "fst (fst (TryGet env principalId s)) = None"
  using assms by (auto simp: TryGet_def log_def time_Now_def Let_def split: option.splits)

text \<open>
  C4, as amended. For every user-type resolution whose read of the durable store fails
  (the ephemeral tier has no fresh entry and the store returns an error), the error of
  the store is dropped and the resolution goes on as after a miss: it returns the fetched
  permissions when the fetch succeeds, and fails with the error of the fetch when the
  fetch fails.
\<close>

theorem store_read_error_discarded:
  assumes "getItemErr env = Some e"
    and "\<forall>val. cacheMap s principalId = Some val \<longrightarrow> \<not> clock env (reads s) < Expiration val"
  shows "fst (getUserPermissions env principalId s) =
     (case requestPermissions env principalId of
        Inl err \<Rightarrow> ([], Some err) | Inr perms \<Rightarrow> (Join perms '','', None))"
proof -
  obtain authCache err s1 where g: "TryGet env principalId s = ((authCache, err), s1)"
    by (cases "TryGet env principalId s") auto
  with TryGet_store_error [OF assms] have "authCache = None" by simp
  with g show ?thesis
    by (simp add: getUserPermissions_def getUserPermissions_among_def resolveWith_miss)
qed

theorem store_read_error_discarded_witness:
  "fst (getUserPermissions (userEnv (Response 503 (Decoded [])) (Some ''RequestLimitExceeded''))
         ''auth0|u1'' emptyState) = ([], Some ''error retrieving user permissions: 503'')"
proof -
  let ?E = "userEnv (Response 503 (Decoded [])) (Some ''RequestLimitExceeded'')"
  have h1: "getItemErr ?E = Some ''RequestLimitExceeded''" by (simp add: example_eval userEnv_def)
  have h2: "\<forall>val. cacheMap emptyState ''auth0|u1'' = Some val \<longrightarrow>
      \<not> clock ?E (reads emptyState) < Expiration val" by (simp add: example_eval userEnv_def)
  from store_read_error_discarded [OF h1 h2]
  show ?thesis by (simp add: requestPermissions_def example_eval userEnv_def Itoa.simps)
qed

text \<open>
  C4 as stated fails: the read of the durable store fails, the fetch succeeds, and the
  decision is Allow with the fetched permission.
\<close>

theorem store_read_error_counterexample:
  "responseOf (Handler (userEnv (Response 200 (Decoded [permission ''read:items''])) (Some ''RequestLimitExceeded''))
        emptyState (bearer ''Bearer e30.e30.sig''))
   = Some (getSuccessResponse ''auth0|u1'' ''arn:aws:execute-api:GET/items''
             (Map.empty(''requesterId'' \<mapsto> ''auth0|u1'', ''permissions'' \<mapsto> ''read:items'')), None)"
  by (simp add: responseOf_def handler_eval strings_eval resolver_eval example_eval userEnv_def Let_def)

text \<open>A fresh entry of the ephemeral tier is served with one read of that tier and nothing else.\<close>

lemma cached_resolution:
  assumes "cacheMap s p = Some val"
    and "clock env (reads s) < Expiration val" and "clock env (Suc (reads s)) < Expiration val"
  shows "getUserPermissions env p s =
     ((Join (Permissions val) '','', None),
      s\<lparr>reads := Suc (Suc (reads s)), trace := trace s @ [CacheMapRead p]\<rparr>)"
  using assms
  by (simp add: getUserPermissions_def getUserPermissions_among_def TryGet_ephemeral
      resolveWith_def fresh_def time_Now_def joined_def)

lemma resolveWith_fetch:
  assumes stale: "\<not> fst (fresh env authCache s1)"
    and mono: "\<forall>i j. i \<le> j \<longrightarrow> clock env i \<le> clock env j"
    and ok: "requestPermissions env principalId = Inr perms"
  shows "resolveWith env principalId authCache s1 =
     ((Join perms '','', None),
      snd (TryPut env principalId
             \<lparr>Permissions = perms, Expiration = writeInstant env authCache s1 + 15 * 60 * 1000000000\<rparr>
             (snd (time_Now env (log (HttpGet (Issuer (Config env) @ ''api/v2/users/'' @ principalId @ ''/permissions''))
                (snd (fresh env authCache (snd (fresh env authCache s1)))))))))"
proof -
  from request_answered [OF ok] obtain ps where
    sent: "httpDo env (Issuer (Config env) @ ''api/v2/users/'' @ principalId @ ''/permissions'')
             (''Bearer '' @ cachedToken env) = Response 200 (Decoded ps)" ..
  show ?thesis
  proof (cases authCache)
    case None
    then show ?thesis
      using ok sent by (simp add: resolveWith_def fresh_def fetchPermissions_def writeInstant_def
          time_Now_def log_def Let_def split: prod.splits)
  next
    case (Some val)
    with stale have 1: "\<not> clock env (reads s1) < Expiration val"
      by (simp add: fresh_def time_Now_def)
    from mono have "clock env (reads s1) \<le> clock env (Suc (reads s1))" by simp
    with 1 have 2: "\<not> clock env (Suc (reads s1)) < Expiration val" by linarith
    show ?thesis
      using Some 1 2 ok sent by (simp add: resolveWith_def fresh_def fetchPermissions_def writeInstant_def
          time_Now_def log_def Let_def split: prod.splits)
  qed
qed

text \<open>
  C7. Take a user-type resolution whose lookup gives no usable entry (none, or one that
  is not fresh at line 279), whose fetch succeeds, on a clock that does not go back.
  It returns the fetched permissions joined with commas; it puts them into the ephemeral
  tier and sends them to the durable tier (where they are stored when the table takes the
  write), both with the expiration 15 minutes after the instant read at the write; and a
  second resolution for the same subject, in any environment whose clock is before that
  expiration at its two readings, returns the same permissions with one read of the
  ephemeral tier as its only access: no read of the table and no upstream call.
\<close>

theorem fetched_permissions_cached:
  assumes "TryGet env principalId s = ((authCache, err), s1)"
    and "\<not> fst (fresh env authCache s1)"
    and "\<forall>i j. i \<le> j \<longrightarrow> clock env i \<le> clock env j"
    and "requestPermissions env principalId = Inr perms"
    and "expiration = writeInstant env authCache s1 + 15 * 60 * 1000000000"
    and "s' = snd (getUserPermissions env principalId s)"
  shows "fst (getUserPermissions env principalId s) = (Join perms '','', None)
     \<and> cacheMap s' principalId = Some \<lparr>Permissions = perms, Expiration = expiration\<rparr>
     \<and> PutItem \<lparr>PK = principalId, SK = principalId, PermissionsAttr = perms,
                 ExpirationAttr = Format expiration timestampLayout\<rparr> \<in> set (trace s')
     \<and> (putItemErr env = None \<longrightarrow>
          table s' (principalId, principalId) =
            Some \<lparr>PK = principalId, SK = principalId, PermissionsAttr = perms,
                  ExpirationAttr = Format expiration timestampLayout\<rparr>)
     \<and> (\<forall>env'. clock env' (reads s') < expiration \<and> clock env' (Suc (reads s')) < expiration \<longrightarrow>
          getUserPermissions env' principalId s' =
            ((Join perms '','', None),
             s'\<lparr>reads := Suc (Suc (reads s')), trace := trace s' @ [CacheMapRead principalId]\<rparr>))"
proof -
  let ?val = "\<lparr>Permissions = perms, Expiration = expiration\<rparr>"
  have run: "getUserPermissions env principalId s = resolveWith env principalId authCache s1"
    by (simp add: getUserPermissions_def getUserPermissions_among_def assms(1))
  note r = resolveWith_fetch [OF assms(2) assms(3) assms(4)]
  have res: "fst (getUserPermissions env principalId s) = (Join perms '','', None)"
    by (simp add: run r)
  obtain s0 where s': "s' = snd (TryPut env principalId ?val s0)"
    using assms(6) by (simp add: run r assms(5))
  have entry: "cacheMap s' principalId = Some ?val"
    by (simp add: s' TryPut_state)
  have put: "PutItem \<lparr>PK = principalId, SK = principalId, PermissionsAttr = perms,
                 ExpirationAttr = Format expiration timestampLayout\<rparr> \<in> set (trace s')"
    using TryPut_state(3) [of principalId ?val env s0] by (simp add: s')
  have tab: "putItemErr env = None \<longrightarrow>
          table s' (principalId, principalId) =
            Some \<lparr>PK = principalId, SK = principalId, PermissionsAttr = perms,
                  ExpirationAttr = Format expiration timestampLayout\<rparr>"
    using TryPut_state(4) [of env principalId ?val s0] by (simp add: s')
  have again: "\<forall>env'. clock env' (reads s') < expiration \<and> clock env' (Suc (reads s')) < expiration \<longrightarrow>
          getUserPermissions env' principalId s' =
            ((Join perms '','', None),
             s'\<lparr>reads := Suc (Suc (reads s')), trace := trace s' @ [CacheMapRead principalId]\<rparr>)"
    using cached_resolution [OF entry] by simp
  from res entry put tab again show ?thesis by (intro conjI)
qed

lemma example_fetch:
  "requestPermissions (userEnv (Response 200 (Decoded [permission ''read:items'', permission ''write:items''])) getErr)
     ''auth0|u1'' = Inr [''read:items'', ''write:items'']"
  by (simp add: requestPermissions_def example_eval userEnv_def)

lemma example_reads:
  "reads (snd (getUserPermissions
         (userEnv (Response 200 (Decoded [permission ''read:items'', permission ''write:items''])) None)
         ''auth0|u1'' emptyState)) = 1"
  by (simp add: resolver_eval example_eval userEnv_def example_fetch Let_def)

theorem fetched_permissions_cached_witness:
  "fst (getUserPermissions
         (userEnv (Response 200 (Decoded [permission ''read:items'', permission ''write:items''])) None)
         ''auth0|u1'' emptyState) = (''read:items,write:items'', None)
   \<and> cacheMap (snd (getUserPermissions
         (userEnv (Response 200 (Decoded [permission ''read:items'', permission ''write:items''])) None)
         ''auth0|u1'' emptyState)) ''auth0|u1''
       = Some \<lparr>Permissions = [''read:items'', ''write:items''], Expiration = 900000000000\<rparr>
   \<and> fst (getUserPermissions
         (userEnv (Response 200 (Decoded [permission ''read:items'', permission ''write:items''])) None)
         ''auth0|u1''
         (snd (getUserPermissions
         (userEnv (Response 200 (Decoded [permission ''read:items'', permission ''write:items''])) None)
         ''auth0|u1'' emptyState))) = (''read:items,write:items'', None)"
proof -
  let ?E = "userEnv (Response 200 (Decoded [permission ''read:items'', permission ''write:items''])) None"
  let ?s1 = "log (GetItem (''auth0|u1'', ''auth0|u1'')) (log (CacheMapRead ''auth0|u1'') emptyState)"
  have h1: "TryGet ?E ''auth0|u1'' emptyState = ((None, None), ?s1)"
    by (simp add: TryGet_def example_eval userEnv_def log_def)
  have h2: "\<not> fst (fresh ?E None ?s1)" by (simp add: fresh_def)
  have h3: "\<forall>i j. i \<le> j \<longrightarrow> clock ?E i \<le> clock ?E j" by (simp add: example_eval userEnv_def)
  have h5: "900000000000 = writeInstant ?E None ?s1 + 15 * 60 * 1000000000"
    by (simp add: writeInstant_def fresh_def log_def example_eval userEnv_def)
  note r = fetched_permissions_cached [OF h1 h2 h3 example_fetch h5 refl]
  have soon: "clock ?E (reads (snd (getUserPermissions ?E ''auth0|u1'' emptyState))) < 900000000000
     \<and> clock ?E (Suc (reads (snd (getUserPermissions ?E ''auth0|u1'' emptyState)))) < 900000000000"
    by (simp add: example_reads) (simp add: example_eval userEnv_def)
  from r soon show ?thesis by simp
qed

end
